theory Spec2Isabelle
  imports Complex_Main "HOL-Library.AList"
begin

section \<open>JavaScript values\<close>

text \<open>
  The registry and the plugins are TypeScript that runs as JavaScript: request bodies,
  tool parameters, environment and configuration bags are JSON values that the code reads
  with property access, \<open>||\<close> and template strings. The model keeps these values as they
  are at run time. Numbers are the integers (every number the program computes with is
  one: the demo table, page sizes, lengths; they stand for the doubles that are exact and
  print in decimal notation) and \<open>NaN\<close>; strings are byte strings (UTF-8).
  \<open>JBuiltin k\<close> is the built-in object that a plain object inherits under the property
  name \<open>k\<close> from \<open>Object.prototype\<close> (\<open>constructor\<close> is the function \<open>Object\<close>,
  \<open>__proto__\<close> is \<open>Object.prototype\<close> itself, the others are its methods).
\<close>

datatype jsval =
    JUndefined
  | JNull
  | JBool bool
  | JNum int
  | JNaN
  | JStr string
  | JArr "jsval list"
  | JObj "(string \<times> jsval) list"
  | JBuiltin string

text \<open>The errors that the program throws or that the engine raises, with their
  message. The message of an error that the engine raises is the engine's own and may
  vary with the input (the position in a text that is not JSON, the name of the
  receiver); the model gives each of these errors one text, and no statement below
  depends on that text.\<close>

datatype error =
    Error string
  | TypeError string
  | SyntaxError string

fun error_message :: "error \<Rightarrow> string" where
  "error_message (Error m) = m"
| "error_message (TypeError m) = m"
| "error_message (SyntaxError m) = m"

text \<open>What the program does besides returning: console lines, files put into the mock
  storage, outbound requests, and three marks for the program points of \<open>executeTool\<close>
  (context literal evaluated, factory called, \<open>execute\<close> called).\<close>

datatype event =
    Console string "jsval list"
  | FileSet string string string
  | Fetch string
  | ContextBuilt jsval jsval
  | ToolCreated
  | ToolExecuted jsval

type_synonym 'a io = "event list \<times> (error + 'a)"

definition ret :: "'a \<Rightarrow> 'a io" where
  "ret x = ([], Inr x)"

definition throw :: "error \<Rightarrow> 'a io" where
  "throw e = ([], Inl e)"

definition emit :: "event \<Rightarrow> unit io" where
  "emit ev = ([ev], Inr ())"

definition bind :: "'a io \<Rightarrow> ('a \<Rightarrow> 'b io) \<Rightarrow> 'b io" where
  "bind m f = (case m of
       (t, Inl e) \<Rightarrow> (t, Inl e)
     | (t, Inr x) \<Rightarrow> (case f x of (t', r) \<Rightarrow> (t @ t', r)))"

text \<open>\<open>try { ... } catch (error) { ... }\<close>: the handler runs after the effects of the body.\<close>

definition try_catch :: "'a io \<Rightarrow> (error \<Rightarrow> 'a io) \<Rightarrow> 'a io" where
  "try_catch m h = (case m of
       (t, Inl e) \<Rightarrow> (case h e of (t', r) \<Rightarrow> (t @ t', r))
     | (t, Inr x) \<Rightarrow> (t, Inr x))"

fun truthy :: "jsval \<Rightarrow> bool" where
  "truthy JUndefined = False"
| "truthy JNull = False"
| "truthy (JBool b) = b"
| "truthy (JNum n) = (n \<noteq> 0)"
| "truthy JNaN = False"
| "truthy (JStr s) = (s \<noteq> [])"
| "truthy (JArr xs) = True"
| "truthy (JObj fs) = True"
| "truthy (JBuiltin k) = True"

text \<open>\<open>a || b\<close> on values whose evaluation has no effect.\<close>

definition js_or :: "jsval \<Rightarrow> jsval \<Rightarrow> jsval" where
  "js_or a b = (if truthy a then a else b)"

text \<open>The property names of \<open>Object.prototype\<close>, which every object literal and every
  object made by \<open>JSON.parse\<close> inherits.\<close>

definition object_prototype_keys :: "string list" where
  "object_prototype_keys =
     [''constructor'', ''__defineGetter__'', ''__defineSetter__'', ''hasOwnProperty'',
      ''__lookupGetter__'', ''__lookupSetter__'', ''isPrototypeOf'',
      ''propertyIsEnumerable'', ''toString'', ''valueOf'', ''__proto__'',
      ''toLocaleString'']"

definition object_prototype :: "string \<Rightarrow> jsval" where
  "object_prototype k = (if k \<in> set object_prototype_keys then JBuiltin k else JUndefined)"

text \<open>\<open>o[k]\<close> on a plain object: own property first, then the prototype.\<close>

definition obj_get :: "(string \<times> jsval) list \<Rightarrow> string \<Rightarrow> jsval" where
  "obj_get fs k = (case map_of fs k of Some v \<Rightarrow> v | None \<Rightarrow> object_prototype k)"

text \<open>
  \<open>v.k\<close> for any receiver. Reading a property of \<open>undefined\<close> or \<open>null\<close> throws.
  Arrays and strings have their \<open>length\<close>. Apart from it, on the receivers that are
  not plain objects (primitives, arrays, built-ins) the program reads only fixed
  identifiers of its own (\<open>pluginId\<close>, \<open>city\<close>, \<open>tempCelsius\<close>, ...), which no built-in
  prototype defines: the read gives \<open>undefined\<close>.
\<close>

definition read_prop :: "jsval \<Rightarrow> string \<Rightarrow> jsval" where
  "read_prop v k = (case v of
       JObj fs \<Rightarrow> obj_get fs k
     | JArr xs \<Rightarrow> (if k = ''length'' then JNum (int (length xs)) else JUndefined)
     | JStr x \<Rightarrow> (if k = ''length'' then JNum (int (length x)) else JUndefined)
     | _ \<Rightarrow> JUndefined)"

definition get_prop :: "jsval \<Rightarrow> string \<Rightarrow> jsval io" where
  "get_prop v k = (case v of
       JUndefined \<Rightarrow>
         throw (TypeError (''Cannot read properties of undefined (reading '' @ [CHR 0x27] @ k @ [CHR 0x27] @ '')''))
     | JNull \<Rightarrow>
         throw (TypeError (''Cannot read properties of null (reading '' @ [CHR 0x27] @ k @ [CHR 0x27] @ '')''))
     | _ \<Rightarrow> ret (read_prop v k))"

subsection \<open>Strings\<close>

definition digit_char :: "nat \<Rightarrow> char" where
  "digit_char d = ''0123456789'' ! d"

fun show_nat :: "nat \<Rightarrow> string" where
  "show_nat n = (if n < 10 then [digit_char n] else show_nat (n div 10) @ [digit_char (n mod 10)])"

declare show_nat.simps [simp del]

definition show_int :: "int \<Rightarrow> string" where
  "show_int i = (if i < 0 then CHR ''-'' # show_nat (nat (- i)) else show_nat (nat i))"

fun join :: "string \<Rightarrow> string list \<Rightarrow> string" where
  "join sep [] = []"
| "join sep [x] = x"
| "join sep (x # y # ys) = x @ sep @ join sep (y # ys)"

fun sequence_opt :: "'a option list \<Rightarrow> 'a list option" where
  "sequence_opt [] = Some []"
| "sequence_opt (None # xs) = None"
| "sequence_opt (Some x # xs) = (case sequence_opt xs of None \<Rightarrow> None | Some ys \<Rightarrow> Some (x # ys))"

text \<open>
  \<open>ToString\<close>, as \<open>String(v)\<close> and template strings apply it. \<open>None\<close> is the
  \<open>TypeError\<close> of an object that cannot be converted: a JSON object with an own
  property \<open>toString\<close> hides \<open>Object.prototype.toString\<close> by a value that is not
  callable, and \<open>valueOf\<close> (own, not callable, or inherited, returning the object) gives
  no primitive either. An array joins its elements with commas, \<open>null\<close> and \<open>undefined\<close>
  elements as the empty string.
\<close>

fun to_string :: "jsval \<Rightarrow> string option" where
  "to_string JUndefined = Some ''undefined''"
| "to_string JNull = Some ''null''"
| "to_string (JBool b) = Some (if b then ''true'' else ''false'')"
| "to_string (JNum n) = Some (show_int n)"
| "to_string JNaN = Some ''NaN''"
| "to_string (JStr s) = Some s"
| "to_string (JArr xs) =
     map_option (join '','')
       (sequence_opt (map (\<lambda>x. if x = JUndefined \<or> x = JNull then Some [] else to_string x) xs))"
| "to_string (JObj fs) =
     (if ''toString'' \<in> fst ` set fs then None else Some ''[object Object]'')"
| "to_string (JBuiltin k) =
     (if k = ''__proto__'' then Some ''[object Object]''
      else Some (''function '' @ (if k = ''constructor'' then ''Object'' else k) @ ''() { [native code] }''))"

definition to_string_io :: "jsval \<Rightarrow> string io" where
  "to_string_io v = (case to_string v of
       None \<Rightarrow> throw (TypeError ''Cannot convert object to primitive value'')
     | Some s \<Rightarrow> ret s)"

text \<open>A template string: the parts are converted and concatenated from left to right.\<close>

fun template :: "jsval list \<Rightarrow> string io" where
  "template [] = ret []"
| "template (p # ps) = bind (to_string_io p) (\<lambda>s. bind (template ps) (\<lambda>r. ret (s @ r)))"


section \<open>The world outside the process\<close>

text \<open>
  \<open>Date.now()\<close>, the answers of the network and the number formatting of the
  runtime (\<open>Intl\<close>) are inputs of a run. A request is identified by its URL; \<open>ok\<close> is
  what the Fetch standard derives from the status. \<open>json_body\<close> is the body parsed as
  JSON, \<open>None\<close> when it is not JSON. Requests that run concurrently end in an order
  that the program does not control: \<open>first_failure\<close> tells, of the failures of
  concurrent operations, the one that comes first in time. The case mapping of strings
  is the runtime's as well (the Unicode tables of the engine): \<open>to_lower_case s\<close> is
  \<open>s.toLowerCase()\<close> and \<open>to_upper_case s\<close> is \<open>s.toUpperCase()\<close> of a string \<open>s\<close>
  that has characters outside ASCII.
\<close>

record http_response =
  status :: int
  statusText :: string
  contentType :: "string option"
  body_text :: string
  json_body :: "jsval option"

definition ok :: "http_response \<Rightarrow> bool" where
  "ok r = (200 \<le> status r \<and> status r \<le> 299)"

datatype fetch_outcome = NetworkError string | Response http_response

record world =
  now :: int
  fetch :: "string \<Rightarrow> fetch_outcome"
  format_number :: "int \<Rightarrow> string \<Rightarrow> string"
  first_failure :: "error list \<Rightarrow> error"
  to_lower_case :: "string \<Rightarrow> string"
  to_upper_case :: "string \<Rightarrow> string"

subsection \<open>Case mapping\<close>

text \<open>On a string of ASCII characters \<open>toLowerCase\<close> and \<open>toUpperCase\<close> map the
  twenty-six letters and leave every other character as it is.\<close>

definition lower_char :: "char \<Rightarrow> char" where
  "lower_char c = (case map_of (zip ''ABCDEFGHIJKLMNOPQRSTUVWXYZ'' ''abcdefghijklmnopqrstuvwxyz'') c of
       Some l \<Rightarrow> l | None \<Rightarrow> c)"

definition upper_char :: "char \<Rightarrow> char" where
  "upper_char c = (case map_of (zip ''abcdefghijklmnopqrstuvwxyz'' ''ABCDEFGHIJKLMNOPQRSTUVWXYZ'') c of
       Some u \<Rightarrow> u | None \<Rightarrow> c)"

text \<open>A byte of a UTF-8 string is an ASCII character when its highest bit is not
  set.\<close>

definition is_ascii :: "string \<Rightarrow> bool" where
  "is_ascii s = list_all (\<lambda>c. \<not> digit7 c) s"

text \<open>\<open>s.toLowerCase()\<close> on a string: computed on an ASCII string, the runtime's
  mapping on any other.\<close>

definition lower_case :: "world \<Rightarrow> string \<Rightarrow> string" where
  "lower_case w s = (if is_ascii s then map lower_char s else to_lower_case w s)"

text \<open>\<open>v.toLowerCase()\<close>: only a string has the method; on any other JSON value the
  call is a \<open>TypeError\<close> (\<open>toLowerCase is not a function\<close>).\<close>

definition toLowerCase :: "world \<Rightarrow> jsval \<Rightarrow> string io" where
  "toLowerCase w v = (case v of
       JStr s \<Rightarrow> ret (lower_case w s)
     | _ \<Rightarrow> throw (TypeError ''city.toLowerCase is not a function''))"

text \<open>
  The number of bytes that the first UTF-16 code unit of a string takes in UTF-8, from
  the first byte: one for an ASCII character (\<open>0xxxxxxx\<close>), two (\<open>110xxxxx\<close>) or three
  (\<open>1110xxxx\<close>) for the other characters of the Basic Multilingual Plane. A sequence of
  four bytes is a character that UTF-16 writes as a surrogate pair: its first code unit
  is half a character and has no bytes of its own.
\<close>

definition first_unit_length :: "char \<Rightarrow> nat option" where
  "first_unit_length c =
     (if \<not> digit7 c then Some 1
      else if digit6 c \<and> \<not> digit5 c then Some 2
      else if digit6 c \<and> digit5 c \<and> \<not> digit4 c then Some 3
      else None)"

text \<open>
  \<open>s.charAt(0).toUpperCase() + s.slice(1)\<close> on a string. \<open>charAt(0)\<close> is the first
  UTF-16 code unit of \<open>s\<close> (the empty string when \<open>s\<close> is empty) and \<open>slice(1)\<close> is the
  rest. An ASCII first character is mapped as above; another character of the Basic
  Multilingual Plane is mapped by the runtime (to one character or more: the sharp s
  becomes \<open>SS\<close>); the first half of a surrogate pair has no upper case, and the string
  comes back as it is.
\<close>

fun capitalize :: "world \<Rightarrow> string \<Rightarrow> string" where
  "capitalize w [] = []"
| "capitalize w (c # cs) =
     (if \<not> digit7 c then upper_char c # cs
      else case first_unit_length c of
             Some n \<Rightarrow> to_upper_case w (take n (c # cs)) @ drop n (c # cs)
           | None \<Rightarrow> c # cs)"

section \<open>types.ts\<close>

record PluginLogger =
  debug :: "string \<Rightarrow> jsval \<Rightarrow> unit io"
  info :: "string \<Rightarrow> jsval \<Rightarrow> unit io"
  warn :: "string \<Rightarrow> jsval \<Rightarrow> unit io"
  error :: "string \<Rightarrow> jsval \<Rightarrow> unit io"

record PluginStorageAPI =
  uploadFile :: "string \<Rightarrow> string \<Rightarrow> string \<Rightarrow> string io"
  getFileUrl :: "string \<Rightarrow> string io"

record PluginContext =
  datasourceId :: "string option"
  conversationId :: "string option"
  userId :: "string option"
  userEmail :: "string option"
  toolOptions :: "(string \<times> string) list option"
  context_locale :: "string option"
  pluginConfig :: jsval
  context_env :: jsval
  logger :: PluginLogger
  storage :: PluginStorageAPI

text \<open>What \<open>tool({description, inputSchema, execute})\<close> of the AI SDK returns, as the
  loader reads it: the three fields given (\<open>parameters\<close> is the field of older SDK
  versions, \<open>undefined\<close> on the tools of this repository).\<close>

record AnyTool =
  description :: string
  inputSchema :: jsval
  parameters :: jsval
  execute :: "world \<Rightarrow> jsval \<Rightarrow> jsval io"

text \<open>\<open>jsonSchema(s)\<close> of the AI SDK wraps the schema; the loader reads the wrapper's
  \<open>jsonSchema\<close> property.\<close>

definition jsonSchema :: "jsval \<Rightarrow> jsval" where
  "jsonSchema s = JObj [(''jsonSchema'', s)]"

record PluginToolDeclaration =
  decl_id :: string
  decl_name :: string
  decl_description :: string
  decl_category :: "string option"
  decl_icon :: "string option"
  requiresDatasource :: "bool option"
  requiresMicrosoftAuth :: "bool option"
  requiresGmailAuth :: "bool option"
  systemPromptInstructions :: jsval

record PluginManifest =
  manifest_id :: string
  manifest_name :: string
  manifest_version :: string
  manifest_description :: string
  manifest_author :: string
  manifest_license :: string
  manifest_icon :: "string option"
  manifest_category :: "string option"
  homepage :: "string option"
  repository :: "string option"
  minCoreVersion :: "string option"
  requiredEnvVars :: "string list option"
  optionalEnvVars :: "string list option"
  configSchema :: "jsval option"
  manifest_tools :: "PluginToolDeclaration list"
  i18n :: "jsval option"

record PluginToolDefinition =
  tool_id :: string
  createTool :: "PluginContext \<Rightarrow> AnyTool io"
  isAvailable :: "(jsval \<Rightarrow> bool io) option"

text \<open>\<open>validateConfig\<close> returns \<open>true\<close> or the reason as a string. Its result is
  \<open>None\<close> where the source compares a value that is not a number with a number (a
  coercion of strings and arrays that the model does not define).\<close>

record PluginExport =
  manifest :: PluginManifest
  tools :: "PluginToolDefinition list"
  onLoad :: "unit io option"
  onUnload :: "unit io option"
  validateConfig :: "(jsval \<Rightarrow> jsval option io) option"

section \<open>plugins/weather\<close>

definition DEMO_WEATHER :: "(string \<times> jsval) list" where
  "DEMO_WEATHER =
     [(''paris'', JObj [(''condition'', JStr ''Partiellement nuageux''), (''tempCelsius'', JNum 18),
                        (''humidity'', JNum 65), (''windSpeed'', JNum 12)]),
      (''london'', JObj [(''condition'', JStr ''Pluvieux''), (''tempCelsius'', JNum 14),
                         (''humidity'', JNum 80), (''windSpeed'', JNum 20)]),
      (''new york'', JObj [(''condition'', JStr ''Ensoleille''), (''tempCelsius'', JNum 22),
                           (''humidity'', JNum 55), (''windSpeed'', JNum 8)]),
      (''tokyo'', JObj [(''condition'', JStr ''Nuageux''), (''tempCelsius'', JNum 20),
                        (''humidity'', JNum 70), (''windSpeed'', JNum 10)]),
      (''sydney'', JObj [(''condition'', JStr ''Ensoleille''), (''tempCelsius'', JNum 25),
                         (''humidity'', JNum 50), (''windSpeed'', JNum 15)]),
      (''default'', JObj [(''condition'', JStr ''Variable''), (''tempCelsius'', JNum 20),
                          (''humidity'', JNum 60), (''windSpeed'', JNum 10)])]"

definition COUNTRY_MAP :: "(string \<times> jsval) list" where
  "COUNTRY_MAP =
     [(''paris'', JStr ''France''),
      (''london'', JStr ''Royaume-Uni''),
      (''new york'', JStr ''Etats-Unis''),
      (''tokyo'', JStr ''Japon''),
      (''sydney'', JStr ''Australie'')]"

text \<open>\<open>Math.round(x)\<close> is \<open>floor (x + 1/2)\<close>.\<close>

definition Math_round :: "rat \<Rightarrow> int" where
  "Math_round x = \<lfloor>x + 1 / 2\<rfloor>"

text \<open>
  \<open>Math.round((t * 9) / 5 + 32)\<close>. On a number the arithmetic is exact in the
  rationals (on the integers of the demo table the doubles round to the same integer);
  the only other value that \<open>data.tempCelsius\<close> can be is \<open>undefined\<close>, read from a
  built-in, and arithmetic on it is \<open>NaN\<close>.
\<close>

fun to_fahrenheit :: "jsval \<Rightarrow> jsval" where
  "to_fahrenheit (JNum t) = JNum (Math_round ((of_int t * 9) / 5 + 32))"
| "to_fahrenheit v = JNaN"

text \<open>The bytes between \<open>${temperature}\<close> and \<open>${unit}\<close> in the message template of
  the source file.\<close>

definition degree_sign :: string where
  "degree_sign = [CHR 0xC3, CHR 0x82, CHR 0xC2, CHR 0xB0]"




definition weather_execute :: "PluginContext \<Rightarrow> jsval \<Rightarrow> jsval \<Rightarrow> world \<Rightarrow> jsval \<Rightarrow> jsval io" where
  "weather_execute context defaultCity units w params =
     bind (get_prop params ''city'') (\<lambda>params_city.
     let city = js_or params_city defaultCity in
     bind (toLowerCase w city) (\<lambda>cityLower.
     bind (info (logger context) ''Getting weather'' (JObj [(''city'', city), (''units'', units)])) (\<lambda>_.
     let data = js_or (obj_get DEMO_WEATHER cityLower) (obj_get DEMO_WEATHER ''default'');
         country = js_or (obj_get COUNTRY_MAP cityLower) (JStr ''Inconnu'') in
     bind (get_prop data ''tempCelsius'') (\<lambda>tempCelsius.
     bind (get_prop data ''condition'') (\<lambda>condition.
     bind (get_prop data ''humidity'') (\<lambda>humidity.
     bind (get_prop data ''windSpeed'') (\<lambda>windSpeed.
     let temperature = (if units = JStr ''fahrenheit'' then to_fahrenheit tempCelsius else tempCelsius);
         unit = (if units = JStr ''fahrenheit'' then JStr ''F'' else JStr ''C'') in
     bind (template [JStr ''Meteo a '', city, JStr '': '', condition, JStr '', '', temperature,
                     JStr degree_sign, unit, JStr '', humidite '', humidity, JStr ''%, vent '',
                     windSpeed, JStr '' km/h. (Donnees de demonstration)'']) (\<lambda>message.
     ret (JObj [(''city'', JStr (capitalize w (case city of JStr x \<Rightarrow> x | _ \<Rightarrow> []))),
                (''country'', country),
                (''temperature'', temperature),
                (''unit'', unit),
                (''condition'', condition),
                (''humidity'', humidity),
                (''windSpeed'', windSpeed),
                (''message'', JStr message)])))))))))"

definition createGetWeatherTool :: "PluginContext \<Rightarrow> AnyTool io" where
  "createGetWeatherTool context =
     bind (get_prop (pluginConfig context) ''defaultCity'') (\<lambda>config_defaultCity.
     bind (if truthy config_defaultCity then ret config_defaultCity
           else bind (get_prop (context_env context) ''WEATHER_DEFAULT_CITY'') (\<lambda>env_city.
                ret (js_or env_city (JStr ''Paris'')))) (\<lambda>defaultCity.
     bind (get_prop (pluginConfig context) ''units'') (\<lambda>config_units.
     let units = js_or config_units (JStr ''celsius'') in
     bind (template [JStr ''Obtient les conditions meteorologiques actuelles pour une ville. Ville par defaut: '',
                     defaultCity,
                     JStr ''. ATTENTION: Ce sont des donnees de demonstration, pas de vraies donnees meteo.'']) (\<lambda>d.
     bind (template [JStr ''Nom de la ville (ex: Paris, London, Tokyo). Par defaut: '', defaultCity]) (\<lambda>city_description.
     ret \<lparr>description = d,
          inputSchema = jsonSchema (JObj
            [(''type'', JStr ''object''),
             (''properties'', JObj
                [(''city'', JObj [(''type'', JStr ''string''), (''description'', JStr city_description)])]),
             (''required'', JArr [])]),
          parameters = JUndefined,
          execute = weather_execute context defaultCity units\<rparr>)))))"

definition weather_tools :: "PluginToolDefinition list" where
  "weather_tools =
     [\<lparr>tool_id = ''get_weather'',
       createTool = (\<lambda>ctx. createGetWeatherTool ctx),
       isAvailable = Some (\<lambda>env. ret True)\<rparr>]"

text \<open>\<open>['celsius', 'fahrenheit'].includes(v)\<close> compares with the two strings.\<close>

definition weather_validateConfig :: "jsval \<Rightarrow> jsval option io" where
  "weather_validateConfig config =
     bind (get_prop config ''units'') (\<lambda>units.
     if truthy units \<and> units \<notin> set [JStr ''celsius'', JStr ''fahrenheit'']
     then ret (Some (JStr (''units doit etre '' @ [CHR 0x22] @ ''celsius'' @ [CHR 0x22] @ '' ou '' @
                          [CHR 0x22] @ ''fahrenheit'' @ [CHR 0x22])))
     else ret (Some (JBool True)))"

text \<open>The manifest is \<open>plugins/weather/manifest.json\<close>, imported by the plugin; the
  file is a parameter here.\<close>

definition weatherPlugin :: "PluginManifest \<Rightarrow> PluginExport" where
  "weatherPlugin weather_manifest =
     \<lparr>manifest = weather_manifest,
      tools = weather_tools,
      onLoad = Some (emit (Console ''log'' [JStr ''[weather] Demo weather plugin loaded''])),
      onUnload = None,
      validateConfig = Some weather_validateConfig\<rparr>"


section \<open>plugins/pixabay\<close>

definition PIXABAY_API_URL :: string where
  "PIXABAY_API_URL = ''https://pixabay.com/api/''"

record messages =
  noImagesFound :: string
  imagesFound :: "jsval \<Rightarrow> string \<Rightarrow> string io"
  errorApiSearch :: "string \<Rightarrow> int \<Rightarrow> string \<Rightarrow> string"
  errorNotConfigured :: string
  errorImageSearch :: "string \<Rightarrow> string"

definition MESSAGES_fr :: messages where
  "MESSAGES_fr =
     \<lparr>noImagesFound = ''Aucune image trouvee pour cette recherche.'',
      imagesFound = (\<lambda>count total.
         template [count, JStr '' image(s) trouvee(s) sur '', JStr total, JStr '' resultats au total.'']),
      errorApiSearch = (\<lambda>api status statusText.
         ''Erreur lors de la recherche '' @ api @ '': '' @ show_int status @ '' - '' @ statusText),
      errorNotConfigured =
         ''L'' @ [CHR 0x27] @ ''API Pixabay n'' @ [CHR 0x27] @ ''est pas configuree (PIXABAY_API_KEY manquant).'',
      errorImageSearch = (\<lambda>error.
         ''Erreur lors de la recherche d'' @ [CHR 0x27] @ ''images: '' @ error)\<rparr>"

definition MESSAGES_en :: messages where
  "MESSAGES_en =
     \<lparr>noImagesFound = ''No images found for this search.'',
      imagesFound = (\<lambda>count total.
         template [count, JStr '' image(s) found out of '', JStr total, JStr '' total results.'']),
      errorApiSearch = (\<lambda>api status statusText.
         ''Error searching '' @ api @ '': '' @ show_int status @ '' - '' @ statusText),
      errorNotConfigured = ''Pixabay API is not configured (missing PIXABAY_API_KEY).'',
      errorImageSearch = (\<lambda>error. ''Error searching images: '' @ error)\<rparr>"

definition getMessages :: "string option \<Rightarrow> messages" where
  "getMessages loc = (if loc = Some ''en'' then MESSAGES_en else MESSAGES_fr)"

definition is_letter :: "char \<Rightarrow> bool" where
  "is_letter c = (c \<in> set ''abcdefghijklmnopqrstuvwxyzABCDEFGHIJKLMNOPQRSTUVWXYZ'')"

text \<open>
  \<open>url.match(/\.([a-zA-Z]+)(?:\?|$)/)\<close>: the leftmost dot that is followed by a
  run of letters ending at a question mark or at the end of the string; the group is
  that run.
\<close>

fun match_extension :: "string \<Rightarrow> string option" where
  "match_extension [] = None"
| "match_extension (c # cs) =
     (let letters = takeWhile is_letter cs; rest = dropWhile is_letter cs in
      if c = CHR ''.'' \<and> letters \<noteq> [] \<and> (rest = [] \<or> hd rest = CHR ''?'')
      then Some letters else match_extension cs)"

definition getExtension :: "jsval \<Rightarrow> string io" where
  "getExtension url = (case url of
       JStr u \<Rightarrow> ret (case match_extension u of Some e \<Rightarrow> e | None \<Rightarrow> ''jpg'')
     | JUndefined \<Rightarrow> throw (TypeError (''Cannot read properties of undefined (reading '' @ [CHR 0x27] @ ''match'' @ [CHR 0x27] @ '')''))
     | JNull \<Rightarrow> throw (TypeError (''Cannot read properties of null (reading '' @ [CHR 0x27] @ ''match'' @ [CHR 0x27] @ '')''))
     | _ \<Rightarrow> throw (TypeError ''url.match is not a function''))"

text \<open>\<open>fetch(input)\<close>: the input is converted to a string; a request that gets no
  response rejects with a \<open>TypeError\<close>.\<close>

definition js_fetch :: "world \<Rightarrow> jsval \<Rightarrow> http_response io" where
  "js_fetch w input =
     bind (to_string_io input) (\<lambda>url.
     bind (emit (Fetch url)) (\<lambda>_.
     case fetch w url of
       NetworkError m \<Rightarrow> throw (TypeError m)
     | Response r \<Rightarrow> ret r))"

definition mime_of_extension :: "string \<Rightarrow> string" where
  "mime_of_extension ext = ''image/'' @ (if ext = ''jpg'' then ''jpeg'' else ext)"

definition store_one :: "world \<Rightarrow> PluginStorageAPI \<Rightarrow> string \<Rightarrow> jsval \<Rightarrow> string \<Rightarrow> string io" where
  "store_one w st folderPrefix url kind =
     bind (js_fetch w url) (\<lambda>response.
     if \<not> ok response
     then throw (Error (''Failed to fetch '' @ kind @ '': '' @ show_int (status response)))
     else bind (getExtension url) (\<lambda>ext.
          uploadFile st (folderPrefix @ ''/'' @ kind @ ''.'' @ ext) (body_text response)
            (mime_of_extension ext)))"

text \<open>\<open>{...image, k: v}\<close>: the own properties of the spread value, then the new key,
  in place when the key was there.\<close>

fun spread :: "jsval \<Rightarrow> (string \<times> jsval) list" where
  "spread (JObj fs) = fs"
| "spread (JArr xs) = zip (map (\<lambda>i. show_nat i) [0 ..< length xs]) xs"
| "spread (JStr x) = zip (map (\<lambda>i. show_nat i) [0 ..< length x]) (map (\<lambda>c. JStr [c]) x)"
| "spread v = []"

text \<open>
  The two downloads of an image, and the images of a search, run concurrently in the
  source (\<open>Promise.all\<close>): all of them are started, the stored URLs do not depend on the
  interleaving, and when some fail the whole is rejected with the failure that comes
  first in time. The trace lists the effects of all downloads in the order of the list;
  in the source they interleave, and those of the downloads that still run when the
  rejection is caught come after the result.
\<close>

fun failures :: "(error + 'a) list \<Rightarrow> error list" where
  "failures [] = []"
| "failures (Inl e # rs) = e # failures rs"
| "failures (Inr x # rs) = failures rs"

definition first_of :: "world \<Rightarrow> error list \<Rightarrow> error" where
  "first_of w es = (if first_failure w es \<in> set es then first_failure w es else hd es)"

text \<open>One image: the failures of its downloads, or the image with its two stored URLs.\<close>

definition storeImageInMinio ::
    "world \<Rightarrow> jsval \<Rightarrow> PluginStorageAPI \<Rightarrow> PluginLogger \<Rightarrow> event list \<times> (error list + jsval)" where
  "storeImageInMinio w img st lg =
     (case bind (get_prop img ''id'') (\<lambda>image_id.
           bind (template [image_id]) (\<lambda>folderPrefix. ret (image_id, folderPrefix))) of
        (t0, Inl e) \<Rightarrow> (t0, Inl [e])
      | (t0, Inr (image_id, folderPrefix)) \<Rightarrow>
          (case store_one w st folderPrefix (read_prop img ''previewURL'') ''preview'' of
             (t1, r1) \<Rightarrow>
          (case store_one w st folderPrefix (read_prop img ''webformatURL'') ''webformat'' of
             (t2, r2) \<Rightarrow>
          (case (r1, r2) of
             (Inr storedPreviewURL, Inr storedWebformatURL) \<Rightarrow>
               (case info lg ''Image stored in MinIO''
                       (JObj [(''imageId'', image_id), (''storedPreviewURL'', JStr storedPreviewURL),
                              (''storedWebformatURL'', JStr storedWebformatURL)]) of
                  (t3, Inl e) \<Rightarrow> (t0 @ t1 @ t2 @ t3, Inl [e])
                | (t3, Inr u) \<Rightarrow>
                    (t0 @ t1 @ t2 @ t3,
                     Inr (JObj (AList.update ''storedWebformatURL'' (JStr storedWebformatURL)
                            (AList.update ''storedPreviewURL'' (JStr storedPreviewURL) (spread img))))))
           | _ \<Rightarrow> (t0 @ t1 @ t2, Inl (failures [r1, r2]))))))"

fun stored :: "(error list + jsval) list \<Rightarrow> jsval list" where
  "stored [] = []"
| "stored (Inl es # rs) = stored rs"
| "stored (Inr v # rs) = v # stored rs"

fun all_failures :: "(error list + jsval) list \<Rightarrow> error list" where
  "all_failures [] = []"
| "all_failures (Inl es # rs) = es @ all_failures rs"
| "all_failures (Inr v # rs) = all_failures rs"

text \<open>\<open>Promise.all(data.hits.map((img) => storeImageInMinio(img, ...)))\<close>\<close>

definition store_all :: "world \<Rightarrow> PluginStorageAPI \<Rightarrow> PluginLogger \<Rightarrow> jsval list \<Rightarrow> jsval list io" where
  "store_all w st lg imgs =
     (let rs = map (\<lambda>img. storeImageInMinio w img st lg) imgs;
          t = concat (map fst rs);
          es = all_failures (map snd rs) in
      if es = [] then (t, Inr (stored (map snd rs))) else (t, Inl (first_of w es)))"

fun split_on :: "char \<Rightarrow> string \<Rightarrow> string list" where
  "split_on sep [] = [[]]"
| "split_on sep (c # cs) =
     (if c = sep then [] # split_on sep cs
      else (case split_on sep cs of [] \<Rightarrow> [[c]] | p # ps \<Rightarrow> (c # p) # ps))"

text \<open>\<open>image.tags.split(',').slice(0, 3).join(', ')\<close>\<close>

definition alt_of_tags :: "jsval \<Rightarrow> string io" where
  "alt_of_tags tags = (case tags of
       JStr t \<Rightarrow> ret (join '', '' (take 3 (split_on CHR '','' t)))
     | JUndefined \<Rightarrow> throw (TypeError (''Cannot read properties of undefined (reading '' @ [CHR 0x27] @ ''split'' @ [CHR 0x27] @ '')''))
     | JNull \<Rightarrow> throw (TypeError (''Cannot read properties of null (reading '' @ [CHR 0x27] @ ''split'' @ [CHR 0x27] @ '')''))
     | _ \<Rightarrow> throw (TypeError ''image.tags.split is not a function''))"

definition media_of :: "jsval \<Rightarrow> jsval io" where
  "media_of img =
     bind (get_prop img ''storedWebformatURL'') (\<lambda>stored.
     bind (get_prop img ''tags'') (\<lambda>tags.
     bind (alt_of_tags tags) (\<lambda>alt.
     bind (get_prop img ''webformatURL'') (\<lambda>webformatURL.
     bind (getExtension webformatURL) (\<lambda>ext.
     ret (JObj [(''type'', JStr ''image''), (''url'', stored), (''downloadUrl'', stored),
                (''alt'', JStr alt), (''mimeType'', JStr (mime_of_extension ext))]))))))"

fun map_io :: "('a \<Rightarrow> 'b io) \<Rightarrow> 'a list \<Rightarrow> 'b list io" where
  "map_io f [] = ret []"
| "map_io f (x # xs) = bind (f x) (\<lambda>y. bind (map_io f xs) (\<lambda>ys. ret (y # ys)))"

text \<open>
  \<open>v.toLocaleString(loc)\<close>. The digits grouping of a number is the runtime's
  (\<open>Intl\<close>), a parameter here. A string is returned as it is, a boolean as by
  \<open>String\<close>. An array joins what the method gives on its elements, the empty string for
  \<open>null\<close> and \<open>undefined\<close>. An object inherits a method that calls \<open>toString\<close>,
  unless an own property \<open>toLocaleString\<close> (never callable in a JSON value) hides it.
  \<open>None\<close> is the \<open>TypeError\<close>.
\<close>

fun toLocaleString_of :: "(int \<Rightarrow> string \<Rightarrow> string) \<Rightarrow> string \<Rightarrow> jsval \<Rightarrow> string option" where
  "toLocaleString_of fmt loc (JNum n) = Some (fmt n loc)"
| "toLocaleString_of fmt loc (JArr xs) =
     map_option (join '','')
       (sequence_opt (map (\<lambda>x. if x = JUndefined \<or> x = JNull then Some []
                                 else toLocaleString_of fmt loc x) xs))"
| "toLocaleString_of fmt loc (JObj fs) =
     (if ''toLocaleString'' \<in> fst ` set fs then None else to_string (JObj fs))"
| "toLocaleString_of fmt loc v = to_string v"

definition toLocaleString :: "(int \<Rightarrow> string \<Rightarrow> string) \<Rightarrow> jsval \<Rightarrow> string \<Rightarrow> string io" where
  "toLocaleString fmt v loc = (case v of
       JUndefined \<Rightarrow> throw (TypeError ''Cannot read properties of undefined (reading 'toLocaleString')'')
     | JNull \<Rightarrow> throw (TypeError ''Cannot read properties of null (reading 'toLocaleString')'')
     | _ \<Rightarrow> (case toLocaleString_of fmt loc v of
              None \<Rightarrow> throw (TypeError ''toLocaleString is not a function'')
            | Some x \<Rightarrow> ret x))"

definition formatImageResults :: "world \<Rightarrow> jsval \<Rightarrow> jsval list \<Rightarrow> string option \<Rightarrow> jsval io" where
  "formatImageResults w response storedImages loc =
     (let msg = getMessages loc in
      bind (get_prop response ''hits'') (\<lambda>hits.
      bind (get_prop hits ''length'') (\<lambda>hits_length.
      if hits_length = JNum 0 then ret (JObj [(''message'', JStr (noImagesFound msg))])
      else
        bind (map_io media_of storedImages) (\<lambda>media.
        bind (get_prop response ''total'') (\<lambda>total.
        bind (toLocaleString (format_number w) total
                (case loc of None \<Rightarrow> ''fr'' | Some l \<Rightarrow> (if l = [] then ''fr'' else l))) (\<lambda>total_string.
        bind (imagesFound msg hits_length total_string) (\<lambda>m.
        ret (JObj [(''message'', JStr m), (''media'', JArr media)]))))))))"

definition hex_digit :: "nat \<Rightarrow> char" where
  "hex_digit d = ''0123456789ABCDEF'' ! d"

text \<open>The serialisation of \<open>URLSearchParams.toString()\<close>
  (application/x-www-form-urlencoded) on the bytes of the UTF-8 string.\<close>

definition urlencode_char :: "char \<Rightarrow> string" where
  "urlencode_char c =
     (if c \<in> set ''abcdefghijklmnopqrstuvwxyzABCDEFGHIJKLMNOPQRSTUVWXYZ0123456789*-._'' then [c]
      else if c = CHR '' '' then ''+''
      else [CHR ''%'', hex_digit (of_char c div 16), hex_digit (of_char c mod 16)])"

definition urlencode :: "string \<Rightarrow> string" where
  "urlencode x = concat (map urlencode_char x)"

definition URLSearchParams_toString :: "(string \<times> string) list \<Rightarrow> string" where
  "URLSearchParams_toString ps = join ''&'' (map (\<lambda>(k, v). urlencode k @ ''='' @ urlencode v) ps)"

text \<open>The values of the record given to \<open>new URLSearchParams\<close> are converted to
  strings in the order of the keys.\<close>

definition URLSearchParams :: "(string \<times> jsval) list \<Rightarrow> (string \<times> string) list io" where
  "URLSearchParams init = map_io (\<lambda>(k, v). bind (to_string_io v) (\<lambda>x. ret (k, x))) init"

definition response_json :: "http_response \<Rightarrow> jsval io" where
  "response_json r = (case json_body r of
       None \<Rightarrow> throw (SyntaxError ''Unexpected token in JSON'')
     | Some d \<Rightarrow> ret d)"

text \<open>An \<open>Error\<close> object as the console receives it.\<close>

fun error_value :: "error \<Rightarrow> jsval" where
  "error_value (Error m) = JObj [(''name'', JStr ''Error''), (''message'', JStr m)]"
| "error_value (TypeError m) = JObj [(''name'', JStr ''TypeError''), (''message'', JStr m)]"
| "error_value (SyntaxError m) = JObj [(''name'', JStr ''SyntaxError''), (''message'', JStr m)]"

definition pixabay_search :: "PluginContext \<Rightarrow> string option \<Rightarrow> world \<Rightarrow> string \<Rightarrow> jsval io" where
  "pixabay_search context loc w url =
     (let msg = getMessages loc in
      try_catch
        (bind (js_fetch w (JStr url)) (\<lambda>response.
         if \<not> ok response
         then bind (error (logger context) ''Pixabay API error''
                      (JObj [(''status'', JNum (status response)),
                             (''statusText'', JStr (statusText response))])) (\<lambda>_.
              ret (JObj [(''message'',
                     JStr (errorApiSearch msg ''Pixabay'' (status response) (statusText response)))]))
         else
           bind (response_json response) (\<lambda>data.
           bind (get_prop data ''total'') (\<lambda>total.
           bind (get_prop data ''hits'') (\<lambda>hits.
           bind (get_prop hits ''length'') (\<lambda>hits_length.
           bind (info (logger context) ''Pixabay response received''
                   (JObj [(''total'', total), (''hits'', hits_length)])) (\<lambda>_.
           bind (case hits of
                   JArr imgs \<Rightarrow> store_all w (storage context) (logger context) imgs
                 | _ \<Rightarrow> throw (TypeError ''data.hits.map is not a function'')) (\<lambda>storedImages.
           formatImageResults w data storedImages loc))))))))
        (\<lambda>e.
         bind (error (logger context) ''Error searching images'' (JObj [(''error'', error_value e)])) (\<lambda>_.
         ret (JObj [(''message'', JStr (errorImageSearch msg (error_message e)))]))))"

definition pixabay_execute ::
    "PluginContext \<Rightarrow> jsval \<Rightarrow> bool \<Rightarrow> jsval \<Rightarrow> string option \<Rightarrow> world \<Rightarrow> jsval \<Rightarrow> jsval io" where
  "pixabay_execute context defaultLanguage safeSearch defaultPerPage loc w params =
     (let msg = getMessages loc in
      bind (get_prop params ''q'') (\<lambda>q.
      bind (info (logger context) ''Tool called'' (JObj [(''query'', q), (''params'', params)])) (\<lambda>_.
      bind (get_prop (context_env context) ''PIXABAY_API_KEY'') (\<lambda>apiKey.
      if \<not> truthy apiKey
      then bind (error (logger context) ''PIXABAY_API_KEY is not configured'' JUndefined) (\<lambda>_.
           ret (JObj [(''message'', JStr (errorNotConfigured msg))]))
      else
        bind (to_string_io (js_or (read_prop params ''editors_choice'') (JBool False))) (\<lambda>editors_choice.
        bind (to_string_io (if read_prop params ''safesearch'' \<noteq> JUndefined
                            then read_prop params ''safesearch'' else JBool safeSearch)) (\<lambda>safesearch.
        bind (to_string_io (js_or (read_prop params ''page'') (JNum 1))) (\<lambda>page.
        bind (to_string_io (js_or (read_prop params ''per_page'') defaultPerPage)) (\<lambda>per_page.
        bind (URLSearchParams
                [(''key'', apiKey),
                 (''q'', q),
                 (''lang'', js_or (read_prop params ''lang'') defaultLanguage),
                 (''image_type'', js_or (read_prop params ''image_type'') (JStr ''all'')),
                 (''orientation'', js_or (read_prop params ''orientation'') (JStr ''all'')),
                 (''editors_choice'', JStr editors_choice),
                 (''safesearch'', JStr safesearch),
                 (''order'', js_or (read_prop params ''order'') (JStr ''popular'')),
                 (''page'', JStr page),
                 (''per_page'', JStr per_page)]) (\<lambda>sp0.
        bind (if truthy (read_prop params ''category'')
              then bind (to_string_io (read_prop params ''category'')) (\<lambda>x. ret (AList.update ''category'' x sp0))
              else ret sp0) (\<lambda>sp1.
        bind (if truthy (read_prop params ''min_width'')
              then bind (to_string_io (read_prop params ''min_width'')) (\<lambda>x. ret (AList.update ''min_width'' x sp1))
              else ret sp1) (\<lambda>sp2.
        bind (if truthy (read_prop params ''min_height'')
              then bind (to_string_io (read_prop params ''min_height'')) (\<lambda>x. ret (AList.update ''min_height'' x sp2))
              else ret sp2) (\<lambda>sp3.
        bind (if truthy (read_prop params ''colors'')
              then bind (to_string_io (read_prop params ''colors'')) (\<lambda>x. ret (AList.update ''colors'' x sp3))
              else ret sp3) (\<lambda>searchParams.
        pixabay_search context loc w
          (PIXABAY_API_URL @ ''?'' @ URLSearchParams_toString searchParams))))))))))))))"

definition pixabay_lang_enum :: "jsval list" where
  "pixabay_lang_enum = map JStr
     [''cs'', ''da'', ''de'', ''en'', ''es'', ''fr'', ''id'', ''it'', ''hu'', ''nl'', ''no'', ''pl'', ''pt'',
      ''ro'', ''sk'', ''fi'', ''sv'', ''tr'', ''vi'', ''th'', ''bg'', ''ru'', ''el'', ''ja'', ''ko'', ''zh'']"

definition pixabay_category_enum :: "jsval list" where
  "pixabay_category_enum = map JStr
     [''backgrounds'', ''fashion'', ''nature'', ''science'', ''education'', ''feelings'', ''health'',
      ''people'', ''religion'', ''places'', ''animals'', ''industry'', ''computer'', ''food'', ''sports'',
      ''transportation'', ''travel'', ''buildings'', ''business'', ''music'']"

definition pixabay_colors_enum :: "jsval list" where
  "pixabay_colors_enum = map JStr
     [''grayscale'', ''transparent'', ''red'', ''orange'', ''yellow'', ''green'', ''turquoise'', ''blue'',
      ''lilac'', ''pink'', ''white'', ''gray'', ''black'', ''brown'']"

definition schema_property :: "string \<Rightarrow> jsval list option \<Rightarrow> string \<Rightarrow> jsval" where
  "schema_property ty enum d = JObj
     ([(''type'', JStr ty)] @ (case enum of None \<Rightarrow> [] | Some vs \<Rightarrow> [(''enum'', JArr vs)]) @
      [(''description'', JStr d)])"

definition createSearchPixabayTool :: "PluginContext \<Rightarrow> AnyTool io" where
  "createSearchPixabayTool context =
     bind (get_prop (pluginConfig context) ''defaultLanguage'') (\<lambda>config_defaultLanguage.
     let defaultLanguage = js_or config_defaultLanguage (JStr ''en'') in
     bind (get_prop (pluginConfig context) ''safeSearch'') (\<lambda>config_safeSearch.
     let safeSearch = (config_safeSearch \<noteq> JBool False) in
     bind (get_prop (pluginConfig context) ''defaultPerPage'') (\<lambda>config_defaultPerPage.
     let defaultPerPage = js_or config_defaultPerPage (JNum 6);
         loc = context_locale context in
     bind (template [JStr ''Code langue pour la recherche. Par defaut: '', defaultLanguage]) (\<lambda>lang_d.
     bind (template [JStr ''Filtrer le contenu adulte. Par defaut: '', JBool safeSearch]) (\<lambda>safesearch_d.
     bind (template [JStr ''Nombre de resultats par page (3-200). Par defaut: '', defaultPerPage]) (\<lambda>per_page_d.
     ret \<lparr>description = ''Recherche des images libres de droits sur Pixabay. Retourne une liste d'images correspondant aux criteres de recherche avec URLs, metadonnees et statistiques. Utilise cet outil pour aider les utilisateurs a trouver des images pour leurs projets, presentations ou designs.'',
          inputSchema = jsonSchema (JObj
            [(''type'', JStr ''object''),
             (''properties'', JObj
                [(''q'', schema_property ''string'' None
                    ''Terme de recherche (max 100 caracteres). Sois precis pour de meilleurs resultats. En anglais de preference.''),
                 (''lang'', schema_property ''string'' (Some pixabay_lang_enum) lang_d),
                 (''image_type'', schema_property ''string''
                    (Some (map JStr [''all'', ''photo'', ''illustration'', ''vector'']))
                    ''Filtrer par type d'image. Par defaut: all''),
                 (''orientation'', schema_property ''string''
                    (Some (map JStr [''all'', ''horizontal'', ''vertical'']))
                    ''Filtrer par orientation. Par defaut: all''),
                 (''category'', schema_property ''string'' (Some pixabay_category_enum)
                    ''Filtrer par categorie''),
                 (''min_width'', schema_property ''number'' None ''Largeur minimum en pixels''),
                 (''min_height'', schema_property ''number'' None ''Hauteur minimum en pixels''),
                 (''colors'', schema_property ''string'' (Some pixabay_colors_enum)
                    ''Filtrer par couleur dominante''),
                 (''editors_choice'', schema_property ''boolean'' None
                    (''Selectionner uniquement les images '' @ [CHR 0x27] @ ''Choix de l'editeur'' @
                     [CHR 0x27] @ ''. Par defaut: false'')),
                 (''safesearch'', schema_property ''boolean'' None safesearch_d),
                 (''order'', schema_property ''string'' (Some (map JStr [''popular'', ''latest'']))
                    ''Ordre de tri des resultats. Par defaut: popular''),
                 (''page'', schema_property ''number'' None
                    ''Numero de page pour la pagination. Par defaut: 1''),
                 (''per_page'', schema_property ''number'' None per_page_d)]),
             (''required'', JArr [JStr ''q''])]),
          parameters = JUndefined,
          execute = pixabay_execute context defaultLanguage safeSearch defaultPerPage loc\<rparr>))))))"

definition pixabay_tools :: "PluginToolDefinition list" where
  "pixabay_tools =
     [\<lparr>tool_id = ''search_images'',
       createTool = (\<lambda>ctx. createSearchPixabayTool ctx),
       isAvailable = Some (\<lambda>env. bind (get_prop env ''PIXABAY_API_KEY'') (\<lambda>k. ret (truthy k)))\<rparr>]"

text \<open>\<open>perPage < lo || perPage > hi\<close> on a number; \<open>NaN\<close> compares false both times;
  \<open>null\<close> and the booleans count as 0 and 1. No answer for the other values.\<close>

definition outside_range :: "jsval \<Rightarrow> int \<Rightarrow> int \<Rightarrow> bool option" where
  "outside_range v lo hi = (case v of
       JNum n \<Rightarrow> Some (n < lo \<or> n > hi)
     | JNaN \<Rightarrow> Some False
     | JNull \<Rightarrow> Some (0 < lo \<or> 0 > hi)
     | JBool b \<Rightarrow> Some ((if b then 1 else 0) < lo \<or> (if b then 1 else 0) > hi)
     | _ \<Rightarrow> None)"

definition pixabay_validateConfig :: "jsval \<Rightarrow> jsval option io" where
  "pixabay_validateConfig config =
     bind (get_prop config ''defaultPerPage'') (\<lambda>perPage.
     if perPage \<noteq> JUndefined
     then (case outside_range perPage 3 20 of
             None \<Rightarrow> ret None
           | Some True \<Rightarrow> ret (Some (JStr ''defaultPerPage doit etre entre 3 et 20''))
           | Some False \<Rightarrow> ret (Some (JBool True)))
     else ret (Some (JBool True)))"

text \<open>The manifest is \<open>plugins/pixabay/manifest.json\<close>, a parameter as for the weather
  plugin.\<close>

definition pixabayPlugin :: "PluginManifest \<Rightarrow> PluginExport" where
  "pixabayPlugin pixabay_manifest =
     \<lparr>manifest = pixabay_manifest,
      tools = pixabay_tools,
      onLoad = Some (emit (Console ''log'' [JStr ''[pixabay] Pixabay image search plugin loaded''])),
      onUnload = None,
      validateConfig = Some pixabay_validateConfig\<rparr>"


section \<open>plugins/fetch\<close>

text \<open>
  The fetch plugin is defined in the repository and is not imported by the loader. Its
  factory \<open>createFetchUrlTool\<close> (tools/fetch-url.ts) converts pages with the libraries
  linkedom, Readability and Turndown, which are outside the repository: the factory is a
  parameter of the plugin here, and so is the manifest (manifest.json).
\<close>

definition fetch_tools :: "(PluginContext \<Rightarrow> AnyTool io) \<Rightarrow> PluginToolDefinition list" where
  "fetch_tools createFetchUrlTool =
     [\<lparr>tool_id = ''fetch_url'',
       createTool = (\<lambda>ctx. createFetchUrlTool ctx),
       isAvailable = Some (\<lambda>env. ret True)\<rparr>]"

definition fetch_validateConfig :: "jsval \<Rightarrow> jsval option io" where
  "fetch_validateConfig config =
     bind (get_prop config ''maxLength'') (\<lambda>maxLength.
     if maxLength \<noteq> JUndefined
     then (case outside_range maxLength 100 100000 of
             None \<Rightarrow> ret None
           | Some True \<Rightarrow> ret (Some (JStr ''maxLength doit etre entre 100 et 100000''))
           | Some False \<Rightarrow> ret (Some (JBool True)))
     else ret (Some (JBool True)))"

definition fetchPlugin :: "PluginManifest \<Rightarrow> (PluginContext \<Rightarrow> AnyTool io) \<Rightarrow> PluginExport" where
  "fetchPlugin fetch_manifest createFetchUrlTool =
     \<lparr>manifest = fetch_manifest,
      tools = fetch_tools createFetchUrlTool,
      onLoad = Some (emit (Console ''log'' [JStr ''[fetch] Fetch URL plugin loaded''])),
      onUnload = None,
      validateConfig = Some fetch_validateConfig\<rparr>"

section \<open>src/lib/server/plugin-loader.ts\<close>

text \<open>The registry of the loader is the list of the two imported plugins. The
  functions of the loader read the module constant \<open>loadedPlugins\<close>; here they take the
  registry as their first argument, so that a statement can speak of every registry.\<close>

definition loadedPlugins :: "PluginManifest \<Rightarrow> PluginManifest \<Rightarrow> PluginExport list" where
  "loadedPlugins weather_manifest pixabay_manifest =
     [weatherPlugin weather_manifest, pixabayPlugin pixabay_manifest]"

record ToolSummary =
  summary_id :: string
  summary_name :: string
  summary_description :: string

record PluginInfo =
  info_id :: string
  info_name :: string
  info_version :: string
  info_description :: string
  info_author :: string
  info_icon :: "string option"
  info_category :: "string option"
  info_requiredEnvVars :: "string list"
  info_optionalEnvVars :: "string list"
  info_configSchema :: "jsval option"
  info_tools :: "ToolSummary list"

definition getPlugins :: "PluginExport list \<Rightarrow> PluginInfo list" where
  "getPlugins reg = map (\<lambda>plugin.
     \<lparr>info_id = manifest_id (manifest plugin),
      info_name = manifest_name (manifest plugin),
      info_version = manifest_version (manifest plugin),
      info_description = manifest_description (manifest plugin),
      info_author = manifest_author (manifest plugin),
      info_icon = manifest_icon (manifest plugin),
      info_category = manifest_category (manifest plugin),
      info_requiredEnvVars = (case requiredEnvVars (manifest plugin) of None \<Rightarrow> [] | Some vs \<Rightarrow> vs),
      info_optionalEnvVars = (case optionalEnvVars (manifest plugin) of None \<Rightarrow> [] | Some vs \<Rightarrow> vs),
      info_configSchema = configSchema (manifest plugin),
      info_tools = map (\<lambda>t.
         \<lparr>summary_id = decl_id t, summary_name = decl_name t, summary_description = decl_description t\<rparr>)
         (manifest_tools (manifest plugin))\<rparr>) reg"

text \<open>\<open>p.manifest.id === pluginId\<close>: strict equality, which only a string equal to
  the id satisfies.\<close>

definition getPlugin :: "PluginExport list \<Rightarrow> jsval \<Rightarrow> PluginExport option" where
  "getPlugin reg pluginId = find (\<lambda>p. JStr (manifest_id (manifest p)) = pluginId) reg"

definition createMockLogger :: "jsval \<Rightarrow> PluginLogger" where
  "createMockLogger pluginId =
     \<lparr>debug = (\<lambda>message data.
        bind (template [JStr ''['', pluginId, JStr ''] DEBUG:'']) (\<lambda>prefix.
        emit (Console ''log'' [JStr prefix, JStr message, js_or data (JStr [])]))),
      info = (\<lambda>message data.
        bind (template [JStr ''['', pluginId, JStr ''] INFO:'']) (\<lambda>prefix.
        emit (Console ''log'' [JStr prefix, JStr message, js_or data (JStr [])]))),
      warn = (\<lambda>message data.
        bind (template [JStr ''['', pluginId, JStr ''] WARN:'']) (\<lambda>prefix.
        emit (Console ''warn'' [JStr prefix, JStr message, js_or data (JStr [])]))),
      error = (\<lambda>message data.
        bind (template [JStr ''['', pluginId, JStr ''] ERROR:'']) (\<lambda>prefix.
        emit (Console ''error'' [JStr prefix, JStr message, js_or data (JStr [])])))\<rparr>"

text \<open>The map \<open>files\<close> of a mock storage is created with it and only written:
  a write is the event \<open>FileSet\<close>.\<close>

definition createMockStorage :: "jsval \<Rightarrow> PluginStorageAPI" where
  "createMockStorage pluginId =
     \<lparr>uploadFile = (\<lambda>fileName buffer contentType.
        bind (template [JStr ''mock-storage/'', pluginId, JStr ''/'', JStr fileName]) (\<lambda>path.
        bind (emit (FileSet path buffer contentType)) (\<lambda>_.
        bind (template [JStr ''['', pluginId, JStr ''] Mock file uploaded: '', JStr path]) (\<lambda>line.
        bind (emit (Console ''log'' [JStr line])) (\<lambda>_.
        ret (''/api/mock-files/'' @ path)))))),
      getFileUrl = (\<lambda>fileName.
        template [JStr ''/api/mock-files/mock-storage/'', pluginId, JStr ''/'', JStr fileName])\<rparr>"

text \<open>The two tests that the loader applies to \<open>inputSchema\<close> and then to
  \<open>parameters\<close>, when the field is truthy.\<close>

definition schema_in :: "jsval \<Rightarrow> jsval option" where
  "schema_in holder =
     (if \<not> truthy holder then None
      else if truthy (read_prop holder ''jsonSchema'') then Some (read_prop holder ''jsonSchema'')
      else if read_prop holder ''type'' = JStr ''object'' \<and> truthy (read_prop holder ''properties'')
      then Some holder
      else None)"

definition getToolInputSchema :: "PluginExport list \<Rightarrow> jsval \<Rightarrow> jsval \<Rightarrow> jsval io" where
  "getToolInputSchema reg pluginId toolId =
     (case getPlugin reg pluginId of
        None \<Rightarrow> ret JNull
      | Some plugin \<Rightarrow>
          (case find (\<lambda>t. JStr (tool_id t) = toolId) (tools plugin) of
             None \<Rightarrow> ret JNull
           | Some toolDef \<Rightarrow>
               (let context =
                  \<lparr>datasourceId = None,
                   conversationId = None,
                   userId = None,
                   userEmail = None,
                   toolOptions = None,
                   context_locale = None,
                   pluginConfig = JObj [],
                   context_env = JObj [],
                   logger = createMockLogger pluginId,
                   storage = createMockStorage pluginId\<rparr> in
                bind (emit (ContextBuilt (JObj []) (JObj []))) (\<lambda>_.
                bind (createTool toolDef context) (\<lambda>tool.
                bind (emit ToolCreated) (\<lambda>_.
                case schema_in (inputSchema tool) of
                  Some found \<Rightarrow> ret found
                | None \<Rightarrow>
                    (case schema_in (parameters tool) of
                       Some found \<Rightarrow> ret found
                     | None \<Rightarrow> ret JNull)))))))"

record ExecuteToolOptions =
  pluginId :: jsval
  toolId :: jsval
  params :: jsval
  env :: jsval
  config :: jsval

definition executeTool :: "PluginExport list \<Rightarrow> world \<Rightarrow> ExecuteToolOptions \<Rightarrow> jsval io" where
  "executeTool reg w options =
     (case getPlugin reg (pluginId options) of
        None \<Rightarrow>
          bind (template [JStr ''Plugin not found: '', pluginId options]) (\<lambda>m. throw (Error m))
      | Some plugin \<Rightarrow>
          (case find (\<lambda>t. JStr (tool_id t) = toolId options) (tools plugin) of
             None \<Rightarrow>
               bind (template [JStr ''Tool not found: '', toolId options, JStr '' in plugin '',
                               pluginId options]) (\<lambda>m. throw (Error m))
           | Some toolDef \<Rightarrow>
               bind (case isAvailable toolDef of
                       None \<Rightarrow> ret True
                     | Some available \<Rightarrow> available (env options)) (\<lambda>a.
               if \<not> a
               then bind (template [JStr ''Tool '', toolId options,
                                    JStr '' is not available (missing required env vars)'']) (\<lambda>m.
                    throw (Error m))
               else
                 (let context =
                    \<lparr>datasourceId = None,
                     conversationId = Some (''test-conversation-'' @ show_int (now w)),
                     userId = Some ''test-user'',
                     userEmail = Some ''test@example.com'',
                     toolOptions = None,
                     context_locale = Some ''fr'',
                     pluginConfig = config options,
                     context_env = env options,
                     logger = createMockLogger (pluginId options),
                     storage = createMockStorage (pluginId options)\<rparr> in
                  bind (emit (ContextBuilt (config options) (env options))) (\<lambda>_.
                  bind (createTool toolDef context) (\<lambda>tool.
                  bind (emit ToolCreated) (\<lambda>_.
                  bind (emit (ToolExecuted (params options))) (\<lambda>_.
                  execute tool w (params options)))))))))"

section \<open>src/routes/api/execute/+server.ts\<close>

text \<open>
  \<open>json(data, {status})\<close> answers with the JSON text of \<open>data\<close>. \<open>JSON.stringify\<close>
  leaves out the properties whose value is \<open>undefined\<close> or a function and writes
  \<open>null\<close> for such an array element and for \<open>NaN\<close>.
\<close>

fun stringify :: "jsval \<Rightarrow> jsval" where
  "stringify (JArr xs) = JArr (map (\<lambda>x. if stringify x = JUndefined then JNull else stringify x) xs)"
| "stringify (JObj fs) =
     JObj (filter (\<lambda>kv. snd kv \<noteq> JUndefined) (map (\<lambda>kv. (fst kv, stringify (snd kv))) fs))"
| "stringify JNaN = JNull"
| "stringify (JBuiltin k) = (if k = ''__proto__'' then JObj [] else JUndefined)"
| "stringify v = v"

record response =
  response_status :: nat
  response_body :: jsval

definition json :: "jsval \<Rightarrow> nat \<Rightarrow> response" where
  "json data st = \<lparr>response_status = st, response_body = stringify data\<rparr>"

text \<open>The body of a request: text that \<open>request.json()\<close> rejects, or a JSON value.\<close>

datatype request_body = NotJson | Json jsval

definition request_json :: "request_body \<Rightarrow> jsval io" where
  "request_json request = (case request of
       NotJson \<Rightarrow> throw (SyntaxError ''Unexpected token in JSON'')
     | Json body \<Rightarrow> ret body)"

text \<open>\<open>const { pluginId, toolId, params, env, config } = body\<close>: destructuring
  \<open>null\<close> (or \<open>undefined\<close>) throws, any other value is read property by property.\<close>

definition destructure :: "jsval \<Rightarrow> unit io" where
  "destructure body = (case body of
       JUndefined \<Rightarrow> throw (TypeError ''Cannot destructure property 'pluginId' of 'body' as it is undefined.'')
     | JNull \<Rightarrow> throw (TypeError ''Cannot destructure property 'pluginId' of 'body' as it is null.'')
     | _ \<Rightarrow> ret ())"

definition POST :: "PluginExport list \<Rightarrow> world \<Rightarrow> request_body \<Rightarrow> response io" where
  "POST reg w request =
     try_catch
       (bind (request_json request) (\<lambda>body.
        bind (destructure body) (\<lambda>_.
        let body_pluginId = read_prop body ''pluginId'';
            body_toolId = read_prop body ''toolId'';
            body_params = read_prop body ''params'';
            body_env = read_prop body ''env'';
            body_config = read_prop body ''config'' in
        if \<not> truthy body_pluginId \<or> \<not> truthy body_toolId
        then ret (json (JObj [(''error'', JStr ''pluginId and toolId are required'')]) 400)
        else
          bind (executeTool reg w
                  \<lparr>pluginId = body_pluginId,
                   toolId = body_toolId,
                   params = js_or body_params (JObj []),
                   env = js_or body_env (JObj []),
                   config = js_or body_config (JObj [])\<rparr>) (\<lambda>result.
          ret (json (JObj [(''success'', JBool True), (''result'', result)]) 200)))))
       (\<lambda>e.
        bind (emit (Console ''error'' [JStr ''Error executing tool:'', error_value e])) (\<lambda>_.
        ret (json (JObj [(''success'', JBool False), (''error'', JStr (error_message e))]) 500)))"

section \<open>Typed inputs\<close>

text \<open>An environment of type \<open>Record<string, string>\<close> as the value it is at run time.\<close>

definition env_of :: "(string \<times> string) list \<Rightarrow> jsval" where
  "env_of vars = JObj (map (\<lambda>kv. (fst kv, JStr (snd kv))) vars)"

section \<open>The fallback of the city, as the specification words it\<close>




section \<open>Calls that share the process\<close>

text \<open>
  The objects of the process that a call of \<open>executeTool\<close> changes are the console and
  the \<open>files\<close> map of a mock storage: \<open>createMockStorage\<close> makes a new \<open>Map\<close> each time
  it is called, \<open>executeTool\<close> calls it once, in the context literal, and \<open>uploadFile\<close>
  of the storage sets a key of that map. The registry and the tables of the plugins
  are constants that no statement assigns to, and the two plugins of the registry keep
  no variable of their own outside their functions. No statement reads the console or
  a \<open>files\<close> map (the storage has no method that reads its map: \<open>getFileUrl\<close> builds
  the URL from the names), so that an effect of a call is a change of the process and
  no more. The maps of the process are kept
  in a heap, a new map at its end; a map lists its entries (path, buffer, content type)
  in the order of insertion.
\<close>

type_synonym files = "(string \<times> string \<times> string) list"





text \<open>
  Two calls that run concurrently. JavaScript runs one call at a time and can switch
  to the other one where a call awaits, so a concurrent run of two calls performs the
  effects of both in an order that keeps the order of each: an interleaving. A
  schedule tells whose effect comes next (\<open>True\<close>: of the first call); when it ends,
  the first call ends before the second goes on. The schedules give all interleavings,
  those that switch in the middle of a synchronous piece of a call, which JavaScript
  does not do, included. A step of the run is the effect of one call on the
  process, with the address that this call holds.
\<close>

fun interleave :: "bool list \<Rightarrow> 'a list \<Rightarrow> 'a list \<Rightarrow> (bool \<times> 'a) list" where
  "interleave sched [] ys = map (Pair False) ys"
| "interleave sched (x # xs) [] = map (Pair True) (x # xs)"
| "interleave [] (x # xs) (y # ys) = map (Pair True) (x # xs) @ map (Pair False) (y # ys)"
| "interleave (True # sched) (x # xs) (y # ys) = (True, x) # interleave sched xs (y # ys)"
| "interleave (False # sched) (x # xs) (y # ys) = (False, y) # interleave sched (x # xs) ys"








section \<open>Sample inputs\<close>

text \<open>A manifest that has the given id and no tools, the registry of the loader on two
  such manifests, a world without network, a world in which every request is answered
  with status 500, and the call of the example scenario of the specification. The
  strings of the samples are ASCII; on the other strings the sample worlds map no
  character.\<close>

definition example_manifest :: "string \<Rightarrow> PluginManifest" where
  "example_manifest i =
     \<lparr>manifest_id = i, manifest_name = i, manifest_version = ''1.0.0'', manifest_description = [],
      manifest_author = [], manifest_license = ''MIT'', manifest_icon = None, manifest_category = None,
      homepage = None, repository = None, minCoreVersion = None, requiredEnvVars = None,
      optionalEnvVars = None, configSchema = None, manifest_tools = [], i18n = None\<rparr>"

definition example_registry :: "PluginExport list" where
  "example_registry = loadedPlugins (example_manifest ''weather'') (example_manifest ''pixabay'')"

definition offline :: world where
  "offline =
     \<lparr>now = 0,
      fetch = (\<lambda>u. NetworkError ''fetch failed''),
      format_number = (\<lambda>n l. show_int n),
      first_failure = hd,
      to_lower_case = (\<lambda>s. s),
      to_upper_case = (\<lambda>s. s)\<rparr>"


definition api_down :: world where
  "api_down =
     \<lparr>now = 0,
      fetch = (\<lambda>u. Response \<lparr>status = 500, statusText = ''Internal Server Error'',
                               contentType = None, body_text = [], json_body = None\<rparr>),
      format_number = (\<lambda>n l. show_int n),
      first_failure = hd,
      to_lower_case = (\<lambda>s. s),
      to_upper_case = (\<lambda>s. s)\<rparr>"

definition tokyo_call :: ExecuteToolOptions where
  "tokyo_call =
     \<lparr>pluginId = JStr ''weather'', toolId = JStr ''get_weather'',
      params = JObj [(''city'', JStr ''Tokyo'')], env = JObj [],
      config = JObj [(''units'', JStr ''fahrenheit'')]\<rparr>"








text \<open>A registry whose only tool definition has no \<open>isAvailable\<close>: the weather tool
  declared without the predicate.\<close>

definition unchecked_registry :: "PluginExport list" where
  "unchecked_registry =
     [\<lparr>manifest = example_manifest ''weather'',
       tools = [\<lparr>tool_id = ''get_weather'',
                 createTool = (\<lambda>ctx. createGetWeatherTool ctx),
                 isAvailable = None\<rparr>],
       onLoad = None,
       onUnload = None,
       validateConfig = None\<rparr>]"

section \<open>Properties\<close>

subsection \<open>Computing with effects\<close>

lemma bind_Inr: "bind (t, Inr x) f = (case f x of (t', r) \<Rightarrow> (t @ t', r))"
  by (simp add: bind_def)

lemma bind_Inl: "bind (t, Inl e) f = (t, Inl e)"
  by (simp add: bind_def)

lemmas io_simps = bind_Inr bind_Inl ret_def throw_def emit_def

lemma template_strings: "template (map JStr xs) = ([], Inr (concat xs))"
  by (induction xs) (simp_all add: io_simps to_string_io_def)

lemma getPlugin_None_iff:
  "getPlugin reg (JStr p) = None \<longleftrightarrow> p \<notin> set (map (\<lambda>x. manifest_id (manifest x)) reg)"
  by (auto simp: getPlugin_def find_None_iff)

lemma find_tool_None_iff:
  "find (\<lambda>d. JStr (tool_id d) = JStr t) ds = None \<longleftrightarrow> t \<notin> set (map tool_id ds)"
  by (auto simp: find_None_iff)

lemma executeTool_no_plugin:
  "getPlugin reg (JStr p) = None \<Longrightarrow>
   executeTool reg w \<lparr>pluginId = JStr p, toolId = t, params = ps, env = e, config = c\<rparr> =
     ([], Inl (Error (''Plugin not found: '' @ p)))"
  by (simp add: executeTool_def io_simps to_string_io_def)

lemma executeTool_no_tool:
  "getPlugin reg (JStr p) = Some plugin \<Longrightarrow>
   find (\<lambda>d. JStr (tool_id d) = JStr t) (tools plugin) = None \<Longrightarrow>
   executeTool reg w \<lparr>pluginId = JStr p, toolId = JStr t, params = ps, env = e, config = c\<rparr> =
     ([], Inl (Error (''Tool not found: '' @ t @ '' in plugin '' @ p)))"
  by (simp add: executeTool_def io_simps to_string_io_def)

text \<open>
  C1. A call of \<open>executeTool\<close> whose \<open>pluginId\<close> is the manifest id of no registered
  plugin fails with the error \<open>Plugin not found: <pluginId>\<close>; when the plugin is
  found and no tool definition of it has the id \<open>toolId\<close>, the call fails with the error
  \<open>Tool not found: <toolId> in plugin <pluginId>\<close>, a different message. In both cases the
  trace is empty: no context is built, no factory and no tool is run.
\<close>

theorem executeTool_not_found:
  "(p \<notin> set (map (\<lambda>x. manifest_id (manifest x)) reg) \<longrightarrow>
      executeTool reg w \<lparr>pluginId = JStr p, toolId = JStr t, params = ps, env = e, config = c\<rparr> =
        ([], Inl (Error (''Plugin not found: '' @ p)))) \<and>
   (\<forall>plugin. getPlugin reg (JStr p) = Some plugin \<and> t \<notin> set (map tool_id (tools plugin)) \<longrightarrow>
      executeTool reg w \<lparr>pluginId = JStr p, toolId = JStr t, params = ps, env = e, config = c\<rparr> =
        ([], Inl (Error (''Tool not found: '' @ t @ '' in plugin '' @ p)))) \<and>
   ''Plugin not found: '' @ p \<noteq> ''Tool not found: '' @ t @ '' in plugin '' @ p"
proof (intro conjI impI allI)
  assume "p \<notin> set (map (\<lambda>x. manifest_id (manifest x)) reg)"
  then have "getPlugin reg (JStr p) = None"
    using getPlugin_None_iff by blast
  then show "executeTool reg w \<lparr>pluginId = JStr p, toolId = JStr t, params = ps, env = e, config = c\<rparr> =
        ([], Inl (Error (''Plugin not found: '' @ p)))"
    by (rule executeTool_no_plugin)
next
  fix plugin
  assume h: "getPlugin reg (JStr p) = Some plugin \<and> t \<notin> set (map tool_id (tools plugin))"
  then have "find (\<lambda>d. JStr (tool_id d) = JStr t) (tools plugin) = None"
    using find_tool_None_iff by blast
  with h show "executeTool reg w \<lparr>pluginId = JStr p, toolId = JStr t, params = ps, env = e, config = c\<rparr> =
        ([], Inl (Error (''Tool not found: '' @ t @ '' in plugin '' @ p)))"
    by (intro executeTool_no_tool) simp_all
next
  show "''Plugin not found: '' @ p \<noteq> ''Tool not found: '' @ t @ '' in plugin '' @ p"
    by simp
qed

lemma getPlugin_example_weather:
  "getPlugin example_registry (JStr ''weather'') = Some (weatherPlugin (example_manifest ''weather''))"
  by (simp add: example_registry_def getPlugin_def loadedPlugins_def weatherPlugin_def example_manifest_def)

theorem executeTool_not_found_witness:
  "executeTool example_registry offline
      \<lparr>pluginId = JStr ''fetch'', toolId = JStr ''fetch_url'', params = JObj [], env = JObj [], config = JObj []\<rparr> =
      ([], Inl (Error ''Plugin not found: fetch'')) \<and>
   executeTool example_registry offline
      \<lparr>pluginId = JStr ''weather'', toolId = JStr ''fetch_url'', params = JObj [], env = JObj [], config = JObj []\<rparr> =
      ([], Inl (Error ''Tool not found: fetch_url in plugin weather''))"
proof -
  have a: "''fetch'' \<notin> set (map (\<lambda>x. manifest_id (manifest x)) example_registry)"
    by (simp add: example_registry_def loadedPlugins_def weatherPlugin_def pixabayPlugin_def example_manifest_def)
  have b: "''fetch_url'' \<notin> set (map tool_id (tools (weatherPlugin (example_manifest ''weather''))))"
    by (simp add: weatherPlugin_def weather_tools_def)
  from a b getPlugin_example_weather show ?thesis
    using executeTool_not_found [of "''fetch''" example_registry offline "''fetch_url''" "JObj []" "JObj []" "JObj []"]
      executeTool_not_found [of "''weather''" example_registry offline "''fetch_url''" "JObj []" "JObj []" "JObj []"]
    by simp
qed


subsection \<open>The availability check\<close>

lemma executeTool_not_available:
  "getPlugin reg (JStr p) = Some plugin \<Longrightarrow>
   find (\<lambda>d. JStr (tool_id d) = JStr t) (tools plugin) = Some toolDef \<Longrightarrow>
   isAvailable toolDef = Some a \<Longrightarrow> a e = (tr, Inr False) \<Longrightarrow>
   executeTool reg w \<lparr>pluginId = JStr p, toolId = JStr t, params = ps, env = e, config = c\<rparr> =
     (tr, Inl (Error (''Tool '' @ t @ '' is not available (missing required env vars)'')))"
  by (simp add: executeTool_def io_simps to_string_io_def)

lemma executeTool_open:
  "getPlugin reg (JStr p) = Some plugin \<Longrightarrow>
   find (\<lambda>d. JStr (tool_id d) = JStr t) (tools plugin) = Some toolDef \<Longrightarrow>
   isAvailable toolDef = None \<or> (\<exists>a. isAvailable toolDef = Some a \<and> a e = ([], Inr True)) \<Longrightarrow>
   executeTool reg w \<lparr>pluginId = JStr p, toolId = JStr t, params = ps, env = e, config = c\<rparr> =
     bind (emit (ContextBuilt c e)) (\<lambda>_.
     bind (createTool toolDef
             \<lparr>datasourceId = None,
              conversationId = Some (''test-conversation-'' @ show_int (now w)),
              userId = Some ''test-user'',
              userEmail = Some ''test@example.com'',
              toolOptions = None,
              context_locale = Some ''fr'',
              pluginConfig = c,
              context_env = e,
              logger = createMockLogger (JStr p),
              storage = createMockStorage (JStr p)\<rparr>) (\<lambda>tool.
     bind (emit ToolCreated) (\<lambda>_.
     bind (emit (ToolExecuted ps)) (\<lambda>_.
     execute tool w ps))))"
  by (auto simp add: executeTool_def bind_Inr ret_def)

lemma bind_emit_trace: "\<exists>tr r. bind (emit ev) f = (ev # tr, r)"
  by (cases "f ()") (simp add: io_simps)

lemma map_of_env_of:
  "map_of (map (\<lambda>kv. (fst kv, JStr (snd kv))) vars) k = map_option JStr (map_of vars k)"
  by (induction vars) auto

lemma get_prop_env_of:
  "get_prop (env_of vars) k =
     ([], Inr (case map_of vars k of Some v \<Rightarrow> JStr v | None \<Rightarrow> object_prototype k))"
  by (simp add: env_of_def get_prop_def read_prop_def obj_get_def io_simps map_of_env_of
      split: option.splits)

lemma PIXABAY_API_KEY_not_inherited: "object_prototype ''PIXABAY_API_KEY'' = JUndefined"
  by (simp add: object_prototype_def object_prototype_keys_def)

lemma pixabay_isAvailable:
  "isAvailable (hd pixabay_tools) = Some a \<Longrightarrow>
   a (env_of vars) = ([], Inr (\<exists>v. map_of vars ''PIXABAY_API_KEY'' = Some v \<and> v \<noteq> []))"
  by (auto simp add: pixabay_tools_def get_prop_env_of PIXABAY_API_KEY_not_inherited io_simps
      split: option.splits)

lemma getPlugin_pixabay:
  "manifest_id wm \<noteq> manifest_id pm \<Longrightarrow>
   getPlugin (loadedPlugins wm pm) (JStr (manifest_id pm)) = Some (pixabayPlugin pm)"
  by (simp add: getPlugin_def loadedPlugins_def weatherPlugin_def pixabayPlugin_def)

lemma find_search_images:
  "find (\<lambda>d. JStr (tool_id d) = JStr ''search_images'') (tools (pixabayPlugin pm)) = Some (hd pixabay_tools)"
  by (simp add: pixabayPlugin_def pixabay_tools_def)

text \<open>
  C2. When the plugin and the tool definition are found and the \<open>isAvailable\<close> predicate
  of the definition returns \<open>false\<close> on \<open>env\<close>, \<open>executeTool\<close> fails with the error
  \<open>Tool <toolId> is not available (missing required env vars)\<close>, whatever \<open>params\<close> is, and
  its trace is that of the predicate: no context is built and no request is sent. A
  definition without the predicate is never refused: the call goes on to build the context.
  The pixabay tool \<open>search_images\<close> is refused exactly when the environment has no
  \<open>PIXABAY_API_KEY\<close> or an empty one.
\<close>

theorem executeTool_unavailable:
  "(\<forall>plugin toolDef a tr.
      getPlugin reg (JStr p) = Some plugin \<and>
      find (\<lambda>d. tool_id d = t) (tools plugin) = Some toolDef \<and>
      isAvailable toolDef = Some a \<and> a e = (tr, Inr False) \<longrightarrow>
      executeTool reg w \<lparr>pluginId = JStr p, toolId = JStr t, params = ps, env = e, config = c\<rparr> =
        (tr, Inl (Error (''Tool '' @ t @ '' is not available (missing required env vars)'')))) \<and>
   (\<forall>plugin toolDef.
      getPlugin reg (JStr p) = Some plugin \<and>
      find (\<lambda>d. tool_id d = t) (tools plugin) = Some toolDef \<and>
      isAvailable toolDef = None \<longrightarrow>
      (\<exists>tr r. executeTool reg w \<lparr>pluginId = JStr p, toolId = JStr t, params = ps, env = e, config = c\<rparr> =
        (ContextBuilt c e # tr, r))) \<and>
   (manifest_id wm \<noteq> manifest_id pm \<longrightarrow>
      (executeTool (loadedPlugins wm pm) w
         \<lparr>pluginId = JStr (manifest_id pm), toolId = JStr ''search_images'', params = ps,
          env = env_of vars, config = c\<rparr> =
         ([], Inl (Error ''Tool search_images is not available (missing required env vars)''))) =
      (map_of vars ''PIXABAY_API_KEY'' = None \<or> map_of vars ''PIXABAY_API_KEY'' = Some []))"
proof (intro conjI allI impI)
  fix plugin toolDef a tr
  assume h: "getPlugin reg (JStr p) = Some plugin \<and>
      find (\<lambda>d. tool_id d = t) (tools plugin) = Some toolDef \<and>
      isAvailable toolDef = Some a \<and> a e = (tr, Inr False)"
  then show "executeTool reg w \<lparr>pluginId = JStr p, toolId = JStr t, params = ps, env = e, config = c\<rparr> =
        (tr, Inl (Error (''Tool '' @ t @ '' is not available (missing required env vars)'')))"
    by (intro executeTool_not_available [where plugin = plugin and toolDef = toolDef and a = a]) simp_all
next
  fix plugin toolDef
  assume h: "getPlugin reg (JStr p) = Some plugin \<and>
      find (\<lambda>d. tool_id d = t) (tools plugin) = Some toolDef \<and> isAvailable toolDef = None"
  then have "executeTool reg w \<lparr>pluginId = JStr p, toolId = JStr t, params = ps, env = e, config = c\<rparr> =
     bind (emit (ContextBuilt c e)) (\<lambda>_.
     bind (createTool toolDef
             \<lparr>datasourceId = None,
              conversationId = Some (''test-conversation-'' @ show_int (now w)),
              userId = Some ''test-user'',
              userEmail = Some ''test@example.com'',
              toolOptions = None,
              context_locale = Some ''fr'',
              pluginConfig = c,
              context_env = e,
              logger = createMockLogger (JStr p),
              storage = createMockStorage (JStr p)\<rparr>) (\<lambda>tool.
     bind (emit ToolCreated) (\<lambda>_.
     bind (emit (ToolExecuted ps)) (\<lambda>_.
     execute tool w ps))))"
    by (intro executeTool_open [where plugin = plugin]) simp_all
  then show "\<exists>tr r. executeTool reg w \<lparr>pluginId = JStr p, toolId = JStr t, params = ps, env = e, config = c\<rparr> =
        (ContextBuilt c e # tr, r)"
    using bind_emit_trace by metis
next
  assume ids: "manifest_id wm \<noteq> manifest_id pm"
  let ?call = "\<lparr>pluginId = JStr (manifest_id pm), toolId = JStr ''search_images'', params = ps,
          env = env_of vars, config = c\<rparr>"
  obtain a where a: "isAvailable (hd pixabay_tools) = Some a"
    by (simp add: pixabay_tools_def)
  note av = pixabay_isAvailable [OF a, of vars]
  show "(executeTool (loadedPlugins wm pm) w ?call =
         ([], Inl (Error ''Tool search_images is not available (missing required env vars)''))) =
      (map_of vars ''PIXABAY_API_KEY'' = None \<or> map_of vars ''PIXABAY_API_KEY'' = Some [])"
  proof (cases "\<exists>v. map_of vars ''PIXABAY_API_KEY'' = Some v \<and> v \<noteq> []")
    case True
    with av have "a (env_of vars) = ([], Inr True)" by simp
    with a have "isAvailable (hd pixabay_tools) = None \<or>
        (\<exists>a. isAvailable (hd pixabay_tools) = Some a \<and> a (env_of vars) = ([], Inr True))"
      by blast
    from executeTool_open [OF getPlugin_pixabay [OF ids] find_search_images this, of w ps c]
    obtain tr r where "executeTool (loadedPlugins wm pm) w ?call = (ContextBuilt c (env_of vars) # tr, r)"
      using bind_emit_trace by metis
    with True show ?thesis by auto
  next
    case False
    with av have "a (env_of vars) = ([], Inr False)" by simp
    from executeTool_not_available [OF getPlugin_pixabay [OF ids] find_search_images a this, of w ps c]
    have "executeTool (loadedPlugins wm pm) w ?call =
         ([], Inl (Error ''Tool search_images is not available (missing required env vars)''))"
      by simp
    with False show ?thesis
      by (cases "map_of vars ''PIXABAY_API_KEY''") auto
  qed
qed


theorem executeTool_unavailable_witness:
  "executeTool example_registry offline
     \<lparr>pluginId = JStr ''pixabay'', toolId = JStr ''search_images'',
      params = JObj [(''q'', JStr ''cat'')], env = env_of [], config = JObj []\<rparr> =
     ([], Inl (Error ''Tool search_images is not available (missing required env vars)'')) \<and>
   (\<exists>tr r. executeTool unchecked_registry offline
     \<lparr>pluginId = JStr ''weather'', toolId = JStr ''get_weather'',
      params = JObj [], env = JObj [], config = JObj []\<rparr> = (ContextBuilt (JObj []) (JObj []) # tr, r))"
proof -
  have ids: "manifest_id (example_manifest ''weather'') \<noteq> manifest_id (example_manifest ''pixabay'')"
    by (simp add: example_manifest_def)
  have id: "manifest_id (example_manifest ''pixabay'') = ''pixabay''"
    by (simp add: example_manifest_def)
  have g: "getPlugin unchecked_registry (JStr ''weather'') = Some (hd unchecked_registry)"
    by (simp add: getPlugin_def unchecked_registry_def example_manifest_def)
  have f: "find (\<lambda>d. tool_id d = ''get_weather'') (tools (hd unchecked_registry)) =
      Some (hd (tools (hd unchecked_registry)))"
    by (simp add: unchecked_registry_def)
  have n: "isAvailable (hd (tools (hd unchecked_registry))) = None"
    by (simp add: unchecked_registry_def)
  from executeTool_unavailable [of example_registry "''pixabay''" "''search_images''" "env_of []" offline
      "JObj [(''q'', JStr ''cat'')]" "JObj []" "example_manifest ''weather''" "example_manifest ''pixabay''" "[]"]
  have first: "executeTool example_registry offline
     \<lparr>pluginId = JStr ''pixabay'', toolId = JStr ''search_images'',
      params = JObj [(''q'', JStr ''cat'')], env = env_of [], config = JObj []\<rparr> =
     ([], Inl (Error ''Tool search_images is not available (missing required env vars)''))"
    using ids by (simp add: id example_registry_def)
  from executeTool_unavailable [of unchecked_registry "''weather''" "''get_weather''" "JObj []" offline
      "JObj []" "JObj []"]
  have second: "\<exists>tr r. executeTool unchecked_registry offline
     \<lparr>pluginId = JStr ''weather'', toolId = JStr ''get_weather'',
      params = JObj [], env = JObj [], config = JObj []\<rparr> = (ContextBuilt (JObj []) (JObj []) # tr, r)"
    using g f n by blast
  from first second show ?thesis by blast
qed

subsection \<open>Schema lookup and the example scenario\<close>

lemma getPlugin_None_any:
  "getPlugin reg pid = None \<longleftrightarrow> (\<forall>x \<in> set reg. JStr (manifest_id (manifest x)) \<noteq> pid)"
  by (auto simp: getPlugin_def find_None_iff)

text \<open>
  C3. For every \<open>pluginId\<close> and \<open>toolId\<close>, strings or not: when no registered plugin has
  the manifest id \<open>pluginId\<close>, or the plugin found has no tool definition with the id
  \<open>toolId\<close>, \<open>getToolInputSchema\<close> returns \<open>null\<close>; it does not throw, and its trace is
  empty.
\<close>

theorem getToolInputSchema_unknown:
  "((\<forall>x \<in> set reg. JStr (manifest_id (manifest x)) \<noteq> pid) \<longrightarrow>
      getToolInputSchema reg pid tid = ([], Inr JNull)) \<and>
   (\<forall>plugin. getPlugin reg pid = Some plugin \<and> (\<forall>d \<in> set (tools plugin). JStr (tool_id d) \<noteq> tid) \<longrightarrow>
      getToolInputSchema reg pid tid = ([], Inr JNull))"
proof (intro conjI impI allI)
  assume "\<forall>x \<in> set reg. JStr (manifest_id (manifest x)) \<noteq> pid"
  then have "getPlugin reg pid = None"
    using getPlugin_None_any by blast
  then show "getToolInputSchema reg pid tid = ([], Inr JNull)"
    by (simp add: getToolInputSchema_def ret_def)
next
  fix plugin
  assume h: "getPlugin reg pid = Some plugin \<and> (\<forall>d \<in> set (tools plugin). JStr (tool_id d) \<noteq> tid)"
  then have "find (\<lambda>d. JStr (tool_id d) = tid) (tools plugin) = None"
    by (auto simp: find_None_iff)
  with h show "getToolInputSchema reg pid tid = ([], Inr JNull)"
    by (simp add: getToolInputSchema_def ret_def)
qed

theorem getToolInputSchema_unknown_witness:
  "getToolInputSchema example_registry (JStr ''fetch'') (JStr ''fetch_url'') = ([], Inr JNull) \<and>
   getToolInputSchema example_registry (JStr ''weather'') (JStr ''fetch_url'') = ([], Inr JNull)"
proof -
  have a: "\<forall>x \<in> set example_registry. JStr (manifest_id (manifest x)) \<noteq> JStr ''fetch''"
    by (simp add: example_registry_def loadedPlugins_def weatherPlugin_def pixabayPlugin_def example_manifest_def)
  have b: "\<forall>d \<in> set (tools (weatherPlugin (example_manifest ''weather''))). JStr (tool_id d) \<noteq> JStr ''fetch_url''"
    by (simp add: weatherPlugin_def weather_tools_def)
  show ?thesis
    using a b getPlugin_example_weather
      getToolInputSchema_unknown [of example_registry "JStr ''fetch''" "JStr ''fetch_url''"]
      getToolInputSchema_unknown [of example_registry "JStr ''weather''" "JStr ''fetch_url''"]
    by blast
qed

lemma to_fahrenheit_num: "to_fahrenheit (JNum t) = JNum ((18 * t + 325) div 10)"
proof -
  have "(of_int t * 9) / 5 + 32 + 1 / 2 = (of_int (18 * t + 325) :: rat) / of_int 10"
    by (simp add: field_simps)
  then show ?thesis
    by (simp only: to_fahrenheit.simps Math_round_def floor_divide_of_int_eq)
qed

lemma show_int_samples: "show_int 68 = ''68''" "show_int 70 = ''70''" "show_int 10 = ''10''"
  by code_simp+

lemma info_createMockLogger:
  "info (createMockLogger (JStr p)) m d =
     ([Console ''log'' [JStr (''['' @ p @ ''] INFO:''), JStr m, js_or d (JStr [])]], Inr ())"
  by (simp add: createMockLogger_def io_simps to_string_io_def)

lemma error_createMockLogger:
  "error (createMockLogger (JStr p)) m d =
     ([Console ''error'' [JStr (''['' @ p @ ''] ERROR:''), JStr m, js_or d (JStr [])]], Inr ())"
  by (simp add: createMockLogger_def io_simps to_string_io_def)

lemma toLowerCase_Tokyo: "toLowerCase w (JStr ''Tokyo'') = ([], Inr ''tokyo'')"
  by (simp add: toLowerCase_def lower_case_def is_ascii_def lower_char_def io_simps)

lemma weather_execute_Tokyo:
  "logger ctx = createMockLogger (JStr ''weather'') \<Longrightarrow>
   weather_execute ctx dc (JStr ''fahrenheit'') w (JObj [(''city'', JStr ''Tokyo'')]) =
   ([Console ''log'' [JStr ''[weather] INFO:'', JStr ''Getting weather'',
        JObj [(''city'', JStr ''Tokyo''), (''units'', JStr ''fahrenheit'')]]],
    Inr (JObj
        [(''city'', JStr ''Tokyo''), (''country'', JStr ''Japon''),
         (''temperature'', JNum 68), (''unit'', JStr ''F''),
         (''condition'', JStr ''Nuageux''), (''humidity'', JNum 70),
         (''windSpeed'', JNum 10),
         (''message'', JStr (''Meteo a Tokyo: Nuageux, 68'' @ degree_sign @
            ''F, humidite 70%, vent 10 km/h. (Donnees de demonstration)''))]))"
  by (simp add: weather_execute_def io_simps get_prop_def read_prop_def obj_get_def js_or_def
      toLowerCase_Tokyo info_createMockLogger DEMO_WEATHER_def COUNTRY_MAP_def to_string_io_def
      show_int_samples upper_char_def to_fahrenheit_num degree_sign_def Let_def
      del: to_fahrenheit.simps)

lemma getPlugin_weather:
  "manifest_id wm = ''weather'' \<Longrightarrow>
   getPlugin (loadedPlugins wm pm) (JStr ''weather'') = Some (weatherPlugin wm)"
  by (simp add: getPlugin_def loadedPlugins_def weatherPlugin_def)

lemma find_get_weather:
  "find (\<lambda>d. JStr (tool_id d) = JStr ''get_weather'') (tools (weatherPlugin wm)) = Some (hd weather_tools)"
  by (simp add: weatherPlugin_def weather_tools_def)

lemma run_weather_units:
  "pluginConfig ctx = JObj [(''units'', u)] \<Longrightarrow> context_env ctx = JObj [] \<Longrightarrow> truthy u \<Longrightarrow>
   bind (createGetWeatherTool ctx) (\<lambda>tool.
     bind (emit ToolCreated) (\<lambda>_.
     bind (emit (ToolExecuted ps)) (\<lambda>_.
     execute tool w ps))) =
   (case weather_execute ctx (JStr ''Paris'') u w ps of (t, r) \<Rightarrow> (ToolCreated # ToolExecuted ps # t, r))"
  by (simp add: createGetWeatherTool_def io_simps get_prop_def read_prop_def obj_get_def js_or_def
      object_prototype_def object_prototype_keys_def to_string_io_def Let_def split: prod.splits)

text \<open>
  C4. With a weather manifest whose id is \<open>weather\<close>, the call of the example scenario
  (\<open>city\<close> Tokyo, empty environment, \<open>units\<close> fahrenheit) succeeds in every world. In
  its result \<open>temperature\<close> is 68, the rounded Fahrenheit conversion of the 20 degrees
  Celsius of the demo entry \<open>tokyo\<close>, \<open>unit\<close> is \<open>F\<close>, and \<open>message\<close> is
  \<open>Meteo a Tokyo: Nuageux, 68..F, ...\<close>, which has the city name and the unit suffix.
\<close>

theorem executeTool_weather_Tokyo:
  "manifest_id wm = ''weather'' \<Longrightarrow>
   snd (executeTool (loadedPlugins wm pm) w tokyo_call) =
     Inr (JObj
        [(''city'', JStr ''Tokyo''), (''country'', JStr ''Japon''),
         (''temperature'', JNum 68), (''unit'', JStr ''F''),
         (''condition'', JStr ''Nuageux''), (''humidity'', JNum 70),
         (''windSpeed'', JNum 10),
         (''message'', JStr (''Meteo a Tokyo: Nuageux, 68'' @ degree_sign @
            ''F, humidite 70%, vent 10 km/h. (Donnees de demonstration)''))]) \<and>
   obj_get DEMO_WEATHER ''tokyo'' = JObj [(''condition'', JStr ''Nuageux''), (''tempCelsius'', JNum 20),
                        (''humidity'', JNum 70), (''windSpeed'', JNum 10)] \<and>
   to_fahrenheit (JNum 20) = JNum 68"
proof (intro conjI)
  assume wm: "manifest_id wm = ''weather''"
  have av: "isAvailable (hd weather_tools) = None \<or>
      (\<exists>a. isAvailable (hd weather_tools) = Some a \<and> a (JObj []) = ([], Inr True))"
    by (simp add: weather_tools_def ret_def)
  let ?ps = "JObj [(''city'', JStr ''Tokyo'')]"
  let ?ctx = "\<lparr>datasourceId = None,
              conversationId = Some (''test-conversation-'' @ show_int (now w)),
              userId = Some ''test-user'',
              userEmail = Some ''test@example.com'',
              toolOptions = None,
              context_locale = Some ''fr'',
              pluginConfig = JObj [(''units'', JStr ''fahrenheit'')],
              context_env = JObj [],
              logger = createMockLogger (JStr ''weather''),
              storage = createMockStorage (JStr ''weather'')\<rparr>"
  have ct: "createTool (hd weather_tools) ?ctx = createGetWeatherTool ?ctx"
    by (simp add: weather_tools_def)
  have step1: "executeTool (loadedPlugins wm pm) w tokyo_call =
      bind (emit (ContextBuilt (JObj [(''units'', JStr ''fahrenheit'')]) (JObj []))) (\<lambda>_.
      bind (createTool (hd weather_tools) ?ctx) (\<lambda>tool.
      bind (emit ToolCreated) (\<lambda>_.
      bind (emit (ToolExecuted ?ps)) (\<lambda>_.
      execute tool w ?ps))))"
    unfolding tokyo_call_def
    by (rule executeTool_open [OF getPlugin_weather [OF wm] find_get_weather av])
  have step2: "bind (createGetWeatherTool ?ctx) (\<lambda>tool.
      bind (emit ToolCreated) (\<lambda>_.
      bind (emit (ToolExecuted ?ps)) (\<lambda>_.
      execute tool w ?ps))) =
     (case weather_execute ?ctx (JStr ''Paris'') (JStr ''fahrenheit'') w ?ps of
        (t, r) \<Rightarrow> (ToolCreated # ToolExecuted ?ps # t, r))"
    by (rule run_weather_units) simp_all
  have step3: "weather_execute ?ctx (JStr ''Paris'') (JStr ''fahrenheit'') w ?ps =
   ([Console ''log'' [JStr ''[weather] INFO:'', JStr ''Getting weather'',
        JObj [(''city'', JStr ''Tokyo''), (''units'', JStr ''fahrenheit'')]]],
    Inr (JObj
        [(''city'', JStr ''Tokyo''), (''country'', JStr ''Japon''),
         (''temperature'', JNum 68), (''unit'', JStr ''F''),
         (''condition'', JStr ''Nuageux''), (''humidity'', JNum 70),
         (''windSpeed'', JNum 10),
         (''message'', JStr (''Meteo a Tokyo: Nuageux, 68'' @ degree_sign @
            ''F, humidite 70%, vent 10 km/h. (Donnees de demonstration)''))]))"
    by (rule weather_execute_Tokyo) simp
  show "snd (executeTool (loadedPlugins wm pm) w tokyo_call) =
     Inr (JObj
        [(''city'', JStr ''Tokyo''), (''country'', JStr ''Japon''),
         (''temperature'', JNum 68), (''unit'', JStr ''F''),
         (''condition'', JStr ''Nuageux''), (''humidity'', JNum 70),
         (''windSpeed'', JNum 10),
         (''message'', JStr (''Meteo a Tokyo: Nuageux, 68'' @ degree_sign @
            ''F, humidite 70%, vent 10 km/h. (Donnees de demonstration)''))])"
    unfolding step1 ct step2 step3
    by (simp add: io_simps)
next
  show "obj_get DEMO_WEATHER ''tokyo'' = JObj [(''condition'', JStr ''Nuageux''), (''tempCelsius'', JNum 20),
                        (''humidity'', JNum 70), (''windSpeed'', JNum 10)]"
    by (simp add: obj_get_def DEMO_WEATHER_def)
next
  show "to_fahrenheit (JNum 20) = JNum 68"
    by (simp add: to_fahrenheit_num del: to_fahrenheit.simps)
qed


theorem executeTool_weather_Tokyo_witness:
  "snd (executeTool example_registry offline tokyo_call) =
     Inr (JObj
        [(''city'', JStr ''Tokyo''), (''country'', JStr ''Japon''),
         (''temperature'', JNum 68), (''unit'', JStr ''F''),
         (''condition'', JStr ''Nuageux''), (''humidity'', JNum 70),
         (''windSpeed'', JNum 10),
         (''message'', JStr (''Meteo a Tokyo: Nuageux, 68'' @ degree_sign @
            ''F, humidite 70%, vent 10 km/h. (Donnees de demonstration)''))])"
proof -
  have "manifest_id (example_manifest ''weather'') = ''weather''"
    by (simp add: example_manifest_def)
  from executeTool_weather_Tokyo [OF this, of "example_manifest ''pixabay''" offline]
  show ?thesis
    by (simp only: example_registry_def)
qed


subsection \<open>Configuration validators\<close>

lemma getPlugin_map_validateConfig:
  "getPlugin (map (\<lambda>pl. pl\<lparr>validateConfig := v pl\<rparr>) reg) pid =
     map_option (\<lambda>pl. pl\<lparr>validateConfig := v pl\<rparr>) (getPlugin reg pid)"
  by (induction reg) (simp_all add: getPlugin_def)

lemma executeTool_map_validateConfig:
  "executeTool (map (\<lambda>pl. pl\<lparr>validateConfig := v pl\<rparr>) reg) w call = executeTool reg w call"
  by (cases "getPlugin reg (pluginId call)")
     (simp_all add: executeTool_def getPlugin_map_validateConfig)

lemma try_catch_total:
  "(\<And>e. \<exists>t r. h e = (t, Inr r)) \<Longrightarrow> \<exists>t r. try_catch m h = (t, Inr r)"
proof -
  assume h: "\<And>e. \<exists>t r. h e = (t, Inr r)"
  obtain t0 r0 where m: "m = (t0, r0)" by (cases m)
  show ?thesis
  proof (cases r0)
    case (Inl e)
    from h [of e] obtain t r where "h e = (t, Inr r)" by blast
    with m Inl show ?thesis by (simp add: try_catch_def)
  next
    case (Inr x)
    with m show ?thesis by (simp add: try_catch_def)
  qed
qed

lemma pixabay_search_total:
  "logger ctx = createMockLogger (JStr p) \<Longrightarrow> \<exists>t r. pixabay_search ctx loc w url = (t, Inr r)"
  unfolding pixabay_search_def Let_def
  by (rule try_catch_total) (simp add: error_createMockLogger io_simps)

lemma pixabay_validateConfig_rejects:
  "n < 3 \<or> n > 20 \<Longrightarrow>
   pixabay_validateConfig (JObj [(''defaultPerPage'', JNum n)]) =
     ([], Inr (Some (JStr ''defaultPerPage doit etre entre 3 et 20'')))"
  by (auto simp add: pixabay_validateConfig_def get_prop_def read_prop_def obj_get_def outside_range_def
      io_simps)

lemma not_inherited:
  "k \<notin> set object_prototype_keys \<Longrightarrow> object_prototype k = JUndefined"
  by (simp add: object_prototype_def)

lemma case_total:
  "\<exists>t r. m = (t, Inr r) \<Longrightarrow> \<exists>t r. (case m of (t', x) \<Rightarrow> (f t', x)) = (t, Inr r)"
  by auto

lemma pixabay_execute_total:
  assumes "logger ctx = createMockLogger (JStr p)" "context_env ctx = env_of [(''PIXABAY_API_KEY'', k)]"
    "k \<noteq> []"
  shows "\<exists>t r. pixabay_execute ctx (JStr ''en'') True (JNum n) loc w (JObj [(''q'', JStr q)]) = (t, Inr r)"
  using assms
  apply (simp add: pixabay_execute_def env_of_def info_createMockLogger io_simps
        get_prop_def read_prop_def obj_get_def object_prototype_def object_prototype_keys_def
        js_or_def to_string_io_def URLSearchParams_def Let_def)
  apply (rule case_total)
  apply (rule pixabay_search_total)
  apply assumption
  done

lemma run_pixabay_defaultPerPage:
  assumes "logger ctx = createMockLogger (JStr p)" "context_env ctx = env_of [(''PIXABAY_API_KEY'', k)]"
    "k \<noteq> []" "pluginConfig ctx = JObj [(''defaultPerPage'', JNum n)]"
  shows "\<exists>t r. bind (createSearchPixabayTool ctx) (\<lambda>tool.
     bind (emit ToolCreated) (\<lambda>_.
     bind (emit (ToolExecuted (JObj [(''q'', JStr q)]))) (\<lambda>_.
     execute tool w (JObj [(''q'', JStr q)])))) = (t, Inr r)"
proof (cases "n = 0")
  case True
  with assms(4) show ?thesis
    apply (simp add: createSearchPixabayTool_def io_simps get_prop_def read_prop_def obj_get_def
        object_prototype_def object_prototype_keys_def js_or_def to_string_io_def Let_def)
    apply (rule case_total)
    apply (rule case_total)
    apply (rule pixabay_execute_total [OF assms(1,2,3)])
    done
next
  case False
  with assms(4) show ?thesis
    apply (simp add: createSearchPixabayTool_def io_simps get_prop_def read_prop_def obj_get_def
        object_prototype_def object_prototype_keys_def js_or_def to_string_io_def Let_def)
    apply (rule case_total)
    apply (rule case_total)
    apply (rule pixabay_execute_total [OF assms(1,2,3)])
    done
qed

text \<open>
  C5. \<open>executeTool\<close> never calls \<open>validateConfig\<close>: on every registry, replacing the
  validators of the plugins by any others leaves the outcome of every call (trace and
  result) unchanged. The validator of pixabay rejects a \<open>defaultPerPage\<close> outside 3..20,
  and with such a configuration the call of \<open>search_images\<close> with an API key still
  returns a result, in every world.
\<close>

theorem executeTool_ignores_validateConfig:
  "executeTool (map (\<lambda>pl. pl\<lparr>validateConfig := v pl\<rparr>) reg) w call = executeTool reg w call \<and>
   (n < 3 \<or> n > 20 \<longrightarrow>
      pixabay_validateConfig (JObj [(''defaultPerPage'', JNum n)]) =
        ([], Inr (Some (JStr ''defaultPerPage doit etre entre 3 et 20'')))) \<and>
   (manifest_id wm \<noteq> manifest_id pm \<and> k \<noteq> [] \<longrightarrow>
      (\<exists>t r. executeTool (loadedPlugins wm pm) w
         \<lparr>pluginId = JStr (manifest_id pm), toolId = JStr ''search_images'',
          params = JObj [(''q'', JStr q)], env = env_of [(''PIXABAY_API_KEY'', k)],
          config = JObj [(''defaultPerPage'', JNum n)]\<rparr> = (t, Inr r)))"
proof (intro conjI impI)
  show "executeTool (map (\<lambda>pl. pl\<lparr>validateConfig := v pl\<rparr>) reg) w call = executeTool reg w call"
    by (rule executeTool_map_validateConfig)
next
  assume "n < 3 \<or> n > 20"
  then show "pixabay_validateConfig (JObj [(''defaultPerPage'', JNum n)]) =
        ([], Inr (Some (JStr ''defaultPerPage doit etre entre 3 et 20'')))"
    by (rule pixabay_validateConfig_rejects)
next
  assume h: "manifest_id wm \<noteq> manifest_id pm \<and> k \<noteq> []"
  let ?e = "env_of [(''PIXABAY_API_KEY'', k)]"
  let ?c = "JObj [(''defaultPerPage'', JNum n)]"
  let ?ps = "JObj [(''q'', JStr q)]"
  let ?ctx = "\<lparr>datasourceId = None,
              conversationId = Some (''test-conversation-'' @ show_int (now w)),
              userId = Some ''test-user'',
              userEmail = Some ''test@example.com'',
              toolOptions = None,
              context_locale = Some ''fr'',
              pluginConfig = ?c,
              context_env = ?e,
              logger = createMockLogger (JStr (manifest_id pm)),
              storage = createMockStorage (JStr (manifest_id pm))\<rparr>"
  obtain a where a: "isAvailable (hd pixabay_tools) = Some a"
    by (simp add: pixabay_tools_def)
  from h pixabay_isAvailable [OF a, of "[(''PIXABAY_API_KEY'', k)]"]
  have "a ?e = ([], Inr True)" by simp
  with a have av: "isAvailable (hd pixabay_tools) = None \<or>
        (\<exists>a. isAvailable (hd pixabay_tools) = Some a \<and> a ?e = ([], Inr True))"
    by blast
  have ids: "manifest_id wm \<noteq> manifest_id pm" using h by simp
  have ct: "createTool (hd pixabay_tools) ?ctx = createSearchPixabayTool ?ctx"
    by (simp add: pixabay_tools_def)
  have step1: "executeTool (loadedPlugins wm pm) w
         \<lparr>pluginId = JStr (manifest_id pm), toolId = JStr ''search_images'',
          params = ?ps, env = ?e, config = ?c\<rparr> =
      bind (emit (ContextBuilt ?c ?e)) (\<lambda>_.
      bind (createTool (hd pixabay_tools) ?ctx) (\<lambda>tool.
      bind (emit ToolCreated) (\<lambda>_.
      bind (emit (ToolExecuted ?ps)) (\<lambda>_.
      execute tool w ?ps))))"
    by (rule executeTool_open [OF getPlugin_pixabay [OF ids] find_search_images av])
  have "\<exists>t r. bind (createSearchPixabayTool ?ctx) (\<lambda>tool.
     bind (emit ToolCreated) (\<lambda>_.
     bind (emit (ToolExecuted ?ps)) (\<lambda>_.
     execute tool w ?ps))) = (t, Inr r)"
    by (rule run_pixabay_defaultPerPage [where p = "manifest_id pm" and k = k and n = n])
      (simp_all add: h)
  then obtain t r where "bind (createSearchPixabayTool ?ctx) (\<lambda>tool.
     bind (emit ToolCreated) (\<lambda>_.
     bind (emit (ToolExecuted ?ps)) (\<lambda>_.
     execute tool w ?ps))) = (t, Inr r)" by blast
  then show "\<exists>t r. executeTool (loadedPlugins wm pm) w
         \<lparr>pluginId = JStr (manifest_id pm), toolId = JStr ''search_images'',
          params = ?ps, env = ?e, config = ?c\<rparr> = (t, Inr r)"
    unfolding step1 ct by (simp add: io_simps)
qed


theorem executeTool_ignores_validateConfig_witness:
  "executeTool (map (\<lambda>pl. pl\<lparr>validateConfig := None\<rparr>) example_registry) api_down tokyo_call =
     executeTool example_registry api_down tokyo_call \<and>
   pixabay_validateConfig (JObj [(''defaultPerPage'', JNum 2)]) =
     ([], Inr (Some (JStr ''defaultPerPage doit etre entre 3 et 20''))) \<and>
   (\<exists>t r. executeTool example_registry api_down
      \<lparr>pluginId = JStr ''pixabay'', toolId = JStr ''search_images'',
       params = JObj [(''q'', JStr ''cat'')], env = env_of [(''PIXABAY_API_KEY'', ''key'')],
       config = JObj [(''defaultPerPage'', JNum 2)]\<rparr> = (t, Inr r))"
proof -
  have ids: "manifest_id (example_manifest ''weather'') \<noteq> manifest_id (example_manifest ''pixabay'')"
    by (simp add: example_manifest_def)
  have id: "manifest_id (example_manifest ''pixabay'') = ''pixabay''"
    by (simp add: example_manifest_def)
  from executeTool_ignores_validateConfig [where v = "\<lambda>pl. None" and reg = example_registry
      and w = api_down and call = tokyo_call and n = 2 and wm = "example_manifest ''weather''"
      and pm = "example_manifest ''pixabay''" and k = "''key''" and q = "''cat''"]
  show ?thesis
    using ids by (simp add: id example_registry_def)
qed


subsection \<open>The endpoint POST /api/execute\<close>

lemma POST_400:
  "body \<noteq> JNull \<Longrightarrow> body \<noteq> JUndefined \<Longrightarrow>
   \<not> truthy (read_prop body ''pluginId'') \<or> \<not> truthy (read_prop body ''toolId'') \<Longrightarrow>
   POST reg w (Json body) =
     ([], Inr \<lparr>response_status = 400,
               response_body = JObj [(''error'', JStr ''pluginId and toolId are required'')]\<rparr>)"
  by (cases body)
     (auto simp add: POST_def request_json_def destructure_def try_catch_def io_simps json_def Let_def)

lemma POST_call:
  "body \<noteq> JNull \<Longrightarrow> body \<noteq> JUndefined \<Longrightarrow>
   truthy (read_prop body ''pluginId'') \<Longrightarrow> truthy (read_prop body ''toolId'') \<Longrightarrow>
   POST reg w (Json body) =
     (case executeTool reg w
             \<lparr>pluginId = read_prop body ''pluginId'',
              toolId = read_prop body ''toolId'',
              params = js_or (read_prop body ''params'') (JObj []),
              env = js_or (read_prop body ''env'') (JObj []),
              config = js_or (read_prop body ''config'') (JObj [])\<rparr> of
        (t, Inr result) \<Rightarrow>
          (t, Inr (json (JObj [(''success'', JBool True), (''result'', result)]) 200))
      | (t, Inl e) \<Rightarrow>
          (t @ [Console ''error'' [JStr ''Error executing tool:'', error_value e]],
           Inr (json (JObj [(''success'', JBool False), (''error'', JStr (error_message e))]) 500)))"
  by (cases body)
     (auto simp add: POST_def request_json_def destructure_def try_catch_def io_simps Let_def bind_def
       split: prod.splits sum.splits)

lemma POST_no_body:
  "snd (POST reg w NotJson) =
     Inr (json (JObj [(''success'', JBool False), (''error'', JStr ''Unexpected token in JSON'')]) 500)"
  "snd (POST reg w (Json JNull)) =
     Inr (json (JObj [(''success'', JBool False),
        (''error'', JStr ''Cannot destructure property 'pluginId' of 'body' as it is null.'')]) 500)"
  by (simp_all add: POST_def request_json_def destructure_def try_catch_def io_simps)

lemma json_status: "response_status (json d st) = st"
  by (simp add: json_def)

lemma stringify_error_body:
  "response_body (json (JObj [(''success'', JBool False), (''error'', JStr m)]) st) =
     JObj [(''success'', JBool False), (''error'', JStr m)]"
  by (simp add: json_def)


lemma read_prop_own: "map_of fs k = Some v \<Longrightarrow> read_prop (JObj fs) k = v"
  by (simp add: read_prop_def obj_get_def)

text \<open>
  C9. A body in which \<open>pluginId\<close> or \<open>toolId\<close> is present with a falsy value (the empty
  string, \<open>0\<close>, \<open>false\<close>, \<open>null\<close>) is answered as a body without the key: HTTP 400
  with \<open>{error: 'pluginId and toolId are required'}\<close>, the same for every registry and
  world, with an empty trace: \<open>executeTool\<close> is not called.
\<close>

theorem POST_falsy_id:
  "(\<exists>v. map_of fs ''pluginId'' = Some v \<and> \<not> truthy v) \<or>
   (\<exists>v. map_of fs ''toolId'' = Some v \<and> \<not> truthy v) \<longrightarrow>
   POST reg w (Json (JObj fs)) =
     ([], Inr \<lparr>response_status = 400,
               response_body = JObj [(''error'', JStr ''pluginId and toolId are required'')]\<rparr>)"
proof
  assume "(\<exists>v. map_of fs ''pluginId'' = Some v \<and> \<not> truthy v) \<or>
   (\<exists>v. map_of fs ''toolId'' = Some v \<and> \<not> truthy v)"
  then have "\<not> truthy (read_prop (JObj fs) ''pluginId'') \<or> \<not> truthy (read_prop (JObj fs) ''toolId'')"
    using read_prop_own by fastforce
  then show "POST reg w (Json (JObj fs)) =
     ([], Inr \<lparr>response_status = 400,
               response_body = JObj [(''error'', JStr ''pluginId and toolId are required'')]\<rparr>)"
    by (intro POST_400) simp_all
qed

theorem POST_falsy_id_witness:
  "POST example_registry offline
     (Json (JObj [(''pluginId'', JStr []), (''toolId'', JStr ''get_weather'')])) =
     ([], Inr \<lparr>response_status = 400,
               response_body = JObj [(''error'', JStr ''pluginId and toolId are required'')]\<rparr>) \<and>
   POST example_registry offline
     (Json (JObj [(''pluginId'', JStr ''weather''), (''toolId'', JNum 0)])) =
     ([], Inr \<lparr>response_status = 400,
               response_body = JObj [(''error'', JStr ''pluginId and toolId are required'')]\<rparr>)"
  using POST_falsy_id [of "[(''pluginId'', JStr []), (''toolId'', JStr ''get_weather'')]" example_registry offline]
    POST_falsy_id [of "[(''pluginId'', JStr ''weather''), (''toolId'', JNum 0)]" example_registry offline]
  by simp

text \<open>
  C6, as the code has it. The claim as stated fails on two kinds of bodies: the JSON
  body \<open>null\<close> has no \<open>pluginId\<close> and is answered with HTTP 500 (destructuring it throws
  inside the \<open>try\<close>), and a body whose \<open>pluginId\<close> is present and empty is answered with
  HTTP 400 without a call of \<open>executeTool\<close>.
\<close>

theorem POST_missing_id_counterexample:
  "map_sum id response_status (snd (POST example_registry offline (Json JNull))) = Inr 500 \<and>
   POST example_registry offline
     (Json (JObj [(''pluginId'', JStr []), (''toolId'', JStr ''get_weather'')])) =
     ([], Inr \<lparr>response_status = 400,
               response_body = JObj [(''error'', JStr ''pluginId and toolId are required'')]\<rparr>)"
  by (simp add: POST_no_body json_status POST_400 read_prop_def obj_get_def)

text \<open>
  C6, amended. For every request body that is a JSON value other than \<open>null\<close>: if
  \<open>pluginId\<close> or \<open>toolId\<close> is missing from the body or falsy, the handler answers HTTP
  400 with \<open>{error}\<close> and does not call \<open>executeTool\<close>; otherwise it calls \<open>executeTool\<close>
  with the two ids and with \<open>params\<close>, \<open>env\<close> and \<open>config\<close> each replaced by the empty
  object when absent (or falsy), and answers \<open>{success: true, result}\<close> with status 200
  when the call returns, HTTP 500 with \<open>{success: false, error: message}\<close> when it fails.
  A body that is not JSON, or is \<open>null\<close>, gets the HTTP 500 answer too.
\<close>

theorem POST_responses:
  "(body \<noteq> JNull \<and> body \<noteq> JUndefined \<and>
    (\<not> truthy (read_prop body ''pluginId'') \<or> \<not> truthy (read_prop body ''toolId'')) \<longrightarrow>
      POST reg w (Json body) =
        ([], Inr (json (JObj [(''error'', JStr ''pluginId and toolId are required'')]) 400))) \<and>
   (body \<noteq> JNull \<and> body \<noteq> JUndefined \<and>
    truthy (read_prop body ''pluginId'') \<and> truthy (read_prop body ''toolId'') \<longrightarrow>
      POST reg w (Json body) =
        (case executeTool reg w
                \<lparr>pluginId = read_prop body ''pluginId'',
                 toolId = read_prop body ''toolId'',
                 params = js_or (read_prop body ''params'') (JObj []),
                 env = js_or (read_prop body ''env'') (JObj []),
                 config = js_or (read_prop body ''config'') (JObj [])\<rparr> of
           (t, Inr result) \<Rightarrow>
             (t, Inr (json (JObj [(''success'', JBool True), (''result'', result)]) 200))
         | (t, Inl e) \<Rightarrow>
             (t @ [Console ''error'' [JStr ''Error executing tool:'', error_value e]],
              Inr (json (JObj [(''success'', JBool False), (''error'', JStr (error_message e))]) 500)))) \<and>
   js_or JUndefined (JObj []) = JObj [] \<and>
   (\<exists>m. snd (POST reg w NotJson) =
      Inr (json (JObj [(''success'', JBool False), (''error'', JStr m)]) 500)) \<and>
   (\<exists>m. snd (POST reg w (Json JNull)) =
      Inr (json (JObj [(''success'', JBool False), (''error'', JStr m)]) 500))"
proof (intro conjI impI)
  assume "body \<noteq> JNull \<and> body \<noteq> JUndefined \<and>
    (\<not> truthy (read_prop body ''pluginId'') \<or> \<not> truthy (read_prop body ''toolId''))"
  then show "POST reg w (Json body) =
        ([], Inr (json (JObj [(''error'', JStr ''pluginId and toolId are required'')]) 400))"
    using POST_400 [of body reg w] by (simp add: json_def)
next
  assume "body \<noteq> JNull \<and> body \<noteq> JUndefined \<and>
    truthy (read_prop body ''pluginId'') \<and> truthy (read_prop body ''toolId'')"
  then show "POST reg w (Json body) =
        (case executeTool reg w
                \<lparr>pluginId = read_prop body ''pluginId'',
                 toolId = read_prop body ''toolId'',
                 params = js_or (read_prop body ''params'') (JObj []),
                 env = js_or (read_prop body ''env'') (JObj []),
                 config = js_or (read_prop body ''config'') (JObj [])\<rparr> of
           (t, Inr result) \<Rightarrow>
             (t, Inr (json (JObj [(''success'', JBool True), (''result'', result)]) 200))
         | (t, Inl e) \<Rightarrow>
             (t @ [Console ''error'' [JStr ''Error executing tool:'', error_value e]],
              Inr (json (JObj [(''success'', JBool False), (''error'', JStr (error_message e))]) 500)))"
    by (intro POST_call) simp_all
next
  show "js_or JUndefined (JObj []) = JObj []"
    by (simp add: js_or_def)
next
  show "\<exists>m. snd (POST reg w NotJson) =
      Inr (json (JObj [(''success'', JBool False), (''error'', JStr m)]) 500)"
    using POST_no_body(1) by blast
next
  show "\<exists>m. snd (POST reg w (Json JNull)) =
      Inr (json (JObj [(''success'', JBool False), (''error'', JStr m)]) 500)"
    using POST_no_body(2) by blast
qed

theorem POST_responses_witness:
  "POST example_registry offline (Json (JObj [(''pluginId'', JStr ''weather'')])) =
     ([], Inr (json (JObj [(''error'', JStr ''pluginId and toolId are required'')]) 400)) \<and>
   POST example_registry offline
     (Json (JObj [(''pluginId'', JStr ''fetch''), (''toolId'', JStr ''fetch_url'')])) =
     ([Console ''error'' [JStr ''Error executing tool:'', error_value (Error ''Plugin not found: fetch'')]],
      Inr (json (JObj [(''success'', JBool False), (''error'', JStr ''Plugin not found: fetch'')]) 500))"
proof -
  have a: "getPlugin example_registry (JStr ''fetch'') = None"
    by (simp add: getPlugin_def example_registry_def loadedPlugins_def weatherPlugin_def
        pixabayPlugin_def example_manifest_def)
  have e: "executeTool example_registry offline
      \<lparr>pluginId = JStr ''fetch'', toolId = JStr ''fetch_url'', params = JObj [], env = JObj [],
       config = JObj []\<rparr> = ([], Inl (Error ''Plugin not found: fetch''))"
    using executeTool_no_plugin [OF a] by simp
  from POST_responses [of "JObj [(''pluginId'', JStr ''weather'')]" example_registry offline]
  have first: "POST example_registry offline (Json (JObj [(''pluginId'', JStr ''weather'')])) =
     ([], Inr (json (JObj [(''error'', JStr ''pluginId and toolId are required'')]) 400))"
    by (simp add: read_prop_def obj_get_def object_prototype_def object_prototype_keys_def)
  from POST_responses [of "JObj [(''pluginId'', JStr ''fetch''), (''toolId'', JStr ''fetch_url'')]"
      example_registry offline]
  have second: "POST example_registry offline
     (Json (JObj [(''pluginId'', JStr ''fetch''), (''toolId'', JStr ''fetch_url'')])) =
     ([Console ''error'' [JStr ''Error executing tool:'', error_value (Error ''Plugin not found: fetch'')]],
      Inr (json (JObj [(''success'', JBool False), (''error'', JStr ''Plugin not found: fetch'')]) 500))"
    by (simp add: read_prop_def obj_get_def object_prototype_def object_prototype_keys_def js_or_def e)
  from first second show ?thesis by blast
qed



subsection \<open>The contents of the registry\<close>

lemma getPlugin_loaded_cases:
  "getPlugin (loadedPlugins wm pm) pid =
     (if pid = JStr (manifest_id wm) then Some (weatherPlugin wm)
      else if pid = JStr (manifest_id pm) then Some (pixabayPlugin pm)
      else None)"
  by (auto simp add: getPlugin_def loadedPlugins_def weatherPlugin_def pixabayPlugin_def)

lemma loaded_tool_ids:
  "plugin \<in> set (loadedPlugins wm pm) \<Longrightarrow>
   map tool_id (tools plugin) = [''get_weather''] \<or> map tool_id (tools plugin) = [''search_images'']"
  by (auto simp add: loadedPlugins_def weatherPlugin_def pixabayPlugin_def weather_tools_def
      pixabay_tools_def)

lemma getPlugin_in_set: "getPlugin reg pid = Some plugin \<Longrightarrow> plugin \<in> set reg"
  by (auto simp add: getPlugin_def find_Some_iff)

lemma fetch_tool_ids: "map tool_id (tools (fetchPlugin fm cf)) = [''fetch_url'']"
  by (simp add: fetchPlugin_def fetch_tools_def)

text \<open>
  C8. The registry is the list of the weather plugin and the pixabay plugin, and
  \<open>getPlugins\<close> returns the two entries with their manifest ids. A \<open>pluginId\<close> other
  than these two ids finds no plugin, and \<open>executeTool\<close> fails on it with
  \<open>Plugin not found\<close>. The fetch plugin, whatever its manifest and factory, is not in the
  registry; it defines the tool \<open>fetch_url\<close>, no registered plugin does, and every call
  of \<open>executeTool\<close> for \<open>fetch_url\<close> ends in one of the two not-found errors.
\<close>

theorem registry_has_two_plugins:
  "loadedPlugins wm pm = [weatherPlugin wm, pixabayPlugin pm] \<and>
   map info_id (getPlugins (loadedPlugins wm pm)) = [manifest_id wm, manifest_id pm] \<and>
   length (getPlugins (loadedPlugins wm pm)) = 2 \<and>
   (pid \<noteq> JStr (manifest_id wm) \<and> pid \<noteq> JStr (manifest_id pm) \<longrightarrow>
      getPlugin (loadedPlugins wm pm) pid = None) \<and>
   (p \<noteq> manifest_id wm \<and> p \<noteq> manifest_id pm \<longrightarrow>
      executeTool (loadedPlugins wm pm) w
        \<lparr>pluginId = JStr p, toolId = JStr t, params = ps, env = e, config = c\<rparr> =
        ([], Inl (Error (''Plugin not found: '' @ p)))) \<and>
   fetchPlugin fm cf \<notin> set (loadedPlugins wm pm) \<and>
   ''fetch_url'' \<in> set (map tool_id (tools (fetchPlugin fm cf))) \<and>
   (\<forall>plugin \<in> set (loadedPlugins wm pm). ''fetch_url'' \<notin> set (map tool_id (tools plugin))) \<and>
   executeTool (loadedPlugins wm pm) w
        \<lparr>pluginId = JStr p, toolId = JStr ''fetch_url'', params = ps, env = e, config = c\<rparr> \<in>
     {([], Inl (Error (''Plugin not found: '' @ p))),
      ([], Inl (Error (''Tool not found: fetch_url in plugin '' @ p)))}"
proof (intro conjI impI ballI)
  show "loadedPlugins wm pm = [weatherPlugin wm, pixabayPlugin pm]"
    by (simp add: loadedPlugins_def)
next
  show "map info_id (getPlugins (loadedPlugins wm pm)) = [manifest_id wm, manifest_id pm]"
    by (simp add: getPlugins_def loadedPlugins_def weatherPlugin_def pixabayPlugin_def)
next
  show "length (getPlugins (loadedPlugins wm pm)) = 2"
    by (simp add: getPlugins_def loadedPlugins_def)
next
  assume "pid \<noteq> JStr (manifest_id wm) \<and> pid \<noteq> JStr (manifest_id pm)"
  then show "getPlugin (loadedPlugins wm pm) pid = None"
    by (simp add: getPlugin_loaded_cases)
next
  assume "p \<noteq> manifest_id wm \<and> p \<noteq> manifest_id pm"
  then have "getPlugin (loadedPlugins wm pm) (JStr p) = None"
    by (simp add: getPlugin_loaded_cases)
  then show "executeTool (loadedPlugins wm pm) w
        \<lparr>pluginId = JStr p, toolId = JStr t, params = ps, env = e, config = c\<rparr> =
        ([], Inl (Error (''Plugin not found: '' @ p)))"
    by (rule executeTool_no_plugin)
next
  show "fetchPlugin fm cf \<notin> set (loadedPlugins wm pm)"
    using loaded_tool_ids [of "fetchPlugin fm cf" wm pm] fetch_tool_ids [of fm cf] by auto
next
  show "''fetch_url'' \<in> set (map tool_id (tools (fetchPlugin fm cf)))"
    by (simp add: fetch_tool_ids)
next
  fix plugin
  assume "plugin \<in> set (loadedPlugins wm pm)"
  from loaded_tool_ids [OF this] show "''fetch_url'' \<notin> set (map tool_id (tools plugin))"
    by auto
next
  let ?call = "\<lparr>pluginId = JStr p, toolId = JStr ''fetch_url'', params = ps, env = e, config = c\<rparr>"
  show "executeTool (loadedPlugins wm pm) w ?call \<in>
     {([], Inl (Error (''Plugin not found: '' @ p))),
      ([], Inl (Error (''Tool not found: fetch_url in plugin '' @ p)))}"
  proof (cases "getPlugin (loadedPlugins wm pm) (JStr p)")
    case None
    then show ?thesis
      using executeTool_no_plugin [OF None, of w "JStr ''fetch_url''" ps e c] by simp
  next
    case (Some plugin)
    from loaded_tool_ids [OF getPlugin_in_set [OF Some]]
    have "''fetch_url'' \<notin> set (map tool_id (tools plugin))" by auto
    then have "find (\<lambda>d. JStr (tool_id d) = JStr ''fetch_url'') (tools plugin) = None"
      using find_tool_None_iff by blast
    from executeTool_no_tool [OF Some this, of w ps e c] show ?thesis by simp
  qed
qed

theorem registry_has_two_plugins_witness:
  "getPlugin example_registry (JStr ''fetch'') = None \<and>
   executeTool example_registry offline
        \<lparr>pluginId = JStr ''fetch'', toolId = JStr ''fetch_url'', params = JObj [], env = JObj [],
         config = JObj []\<rparr> =
        ([], Inl (Error ''Plugin not found: fetch'')) \<and>
   ''fetch_url'' \<notin> set (concat (map (\<lambda>plugin. map tool_id (tools plugin)) example_registry))"
proof -
  have ids: "JStr ''fetch'' \<noteq> JStr (manifest_id (example_manifest ''weather'')) \<and>
      JStr ''fetch'' \<noteq> JStr (manifest_id (example_manifest ''pixabay''))"
    by (simp add: example_manifest_def)
  have ids': "''fetch'' \<noteq> manifest_id (example_manifest ''weather'') \<and>
      ''fetch'' \<noteq> manifest_id (example_manifest ''pixabay'')"
    by (simp add: example_manifest_def)
  note r = registry_has_two_plugins [where wm = "example_manifest ''weather''"
      and pm = "example_manifest ''pixabay''" and pid = "JStr ''fetch''" and p = "''fetch''"
      and w = offline and t = "''fetch_url''" and ps = "JObj []" and e = "JObj []" and c = "JObj []"]
  from r ids have a: "getPlugin example_registry (JStr ''fetch'') = None"
    unfolding example_registry_def by blast
  from r ids' have b: "executeTool example_registry offline
        \<lparr>pluginId = JStr ''fetch'', toolId = JStr ''fetch_url'', params = JObj [], env = JObj [],
         config = JObj []\<rparr> =
        ([], Inl (Error (''Plugin not found: '' @ ''fetch'')))"
    unfolding example_registry_def by blast
  from r have c: "\<forall>plugin \<in> set example_registry. ''fetch_url'' \<notin> set (map tool_id (tools plugin))"
    unfolding example_registry_def by blast
  from c have d: "''fetch_url'' \<notin> set (concat (map (\<lambda>plugin. map tool_id (tools plugin)) example_registry))"
    by auto
  from a b d show ?thesis by simp
qed


subsection \<open>The weather tool on every input\<close>














subsection \<open>Calls do not interfere\<close>































text \<open>Every order of the effects of two calls that keeps the order of each is the
  interleaving of some schedule.\<close>

lemma all_first: "filter (\<lambda>x. \<not> fst x) m = [] \<Longrightarrow> map (Pair True) (map snd m) = m"
  by (induction m) (auto split: if_splits)

lemma all_second: "filter fst m = [] \<Longrightarrow> map (Pair False) (map snd m) = m"
  by (induction m) (auto split: if_splits)

lemma interleave_all:
  "interleave (map fst m) (map snd (filter fst m)) (map snd (filter (\<lambda>x. \<not> fst x) m)) = m"
proof (induction m)
  case Nil
  show ?case by simp
next
  case (Cons x m)
  obtain tag ev where x: "x = (tag, ev)" by (cases x)
  show ?case
  proof (cases tag)
    case True
    show ?thesis
    proof (cases "filter (\<lambda>x. \<not> fst x) m")
      case Nil
      then have "filter fst m = m" by (induction m) (auto split: if_splits)
      with Nil all_first [OF Nil] show ?thesis by (simp add: x True)
    next
      case (Cons y ys)
      with Cons.IH show ?thesis by (simp add: x True)
    qed
  next
    case False
    show ?thesis
    proof (cases "filter fst m")
      case Nil
      then have "filter (\<lambda>x. \<not> fst x) m = m" by (induction m) (auto split: if_splits)
      with Nil all_second [OF Nil] show ?thesis by (simp add: x False)
    next
      case (Cons y ys)
      with Cons.IH show ?thesis by (simp add: x False)
    qed
  qed
qed








end
